theory Spec2Isabelle
  imports Main
begin


section \<open>Python values and string helpers\<close>

text \<open>
  The converter is Python: text is \<open>str\<close>, modelled as \<^typ>\<open>string\<close> (one \<^typ>\<open>char\<close>
  per code point below 256), integers are unbounded (\<^typ>\<open>int\<close>), and every exception
  the modelled code can raise is a value of \<open>py_error\<close>, returned as \<open>Inl\<close>.
\<close>

datatype py_error = AttributeError | NameError | IndexError | TypeError

text \<open>The constant values a template variable can hold: a string or an integer.\<close>

datatype lit = LStr string | LInt int

definition bnd :: "py_error + 'a \<Rightarrow> ('a \<Rightarrow> py_error + 'b) \<Rightarrow> py_error + 'b" where
  "bnd m f = (case m of Inl e \<Rightarrow> Inl e | Inr x \<Rightarrow> f x)"

definition squote :: char where "squote = CHR 0x27"
definition dquote :: char where "dquote = CHR 0x22"
definition backslash :: char where "backslash = CHR 0x5C"
definition newline :: char where "newline = CHR 0x0A"
definition carriage_return :: char where "carriage_return = CHR 0x0D"

definition digit_char :: "nat \<Rightarrow> char" where
  "digit_char d = (''0123456789abcdef'' ! (d mod 16))"

fun str_nat :: "nat \<Rightarrow> string" where
  "str_nat n = (if n < 10 then [digit_char n] else str_nat (n div 10) @ [digit_char (n mod 10)])"

text \<open>\<open>str(i)\<close> and \<open>repr(i)\<close> of a Python integer.\<close>

definition str_int :: "int \<Rightarrow> string" where
  "str_int i = (if i < 0 then CHR ''-'' # str_nat (nat (- i)) else str_nat (nat i))"

text \<open>\<open>str.isprintable\<close> and \<open>str.isspace\<close> on the code points below 256.\<close>

definition isprintable :: "char \<Rightarrow> bool" where
  "isprintable c = (let n = (of_char c :: nat) in (32 \<le> n \<and> n < 127) \<or> (161 \<le> n \<and> n \<noteq> 173))"

definition isspace :: "char \<Rightarrow> bool" where
  "isspace c = (let n = (of_char c :: nat) in (9 \<le> n \<and> n \<le> 13) \<or> (28 \<le> n \<and> n \<le> 32) \<or> n = 133 \<or> n = 160)"

definition repr_char :: "char \<Rightarrow> char \<Rightarrow> string" where
  "repr_char quote c =
     (if c = quote \<or> c = backslash then [backslash, c]
      else if c = CHR 0x09 then [backslash, CHR ''t'']
      else if c = newline then [backslash, CHR ''n'']
      else if c = carriage_return then [backslash, CHR ''r'']
      else if isprintable c then [c]
      else [backslash, CHR ''x'', digit_char (of_char c div 16), digit_char (of_char c mod 16)])"

text \<open>
  \<open>repr(s)\<close> of a Python 3 string: single quotes, unless the string holds a single quote
  and no double quote; the quote, the backslash and the unprintable characters escaped.
\<close>

definition repr_str :: "string \<Rightarrow> string" where
  "repr_str s =
     (let quote = (if squote \<in> set s \<and> dquote \<notin> set s then dquote else squote)
      in [quote] @ concat (map (repr_char quote) s) @ [quote])"

definition repr :: "lit \<Rightarrow> string" where
  "repr v = (case v of LStr s \<Rightarrow> repr_str s | LInt i \<Rightarrow> str_int i)"

definition startswith :: "string \<Rightarrow> string \<Rightarrow> bool" where
  "startswith s p = (take (length p) s = p)"

definition lstrip :: "string \<Rightarrow> string" where
  "lstrip s = dropWhile isspace s"

definition rstrip :: "string \<Rightarrow> string" where
  "rstrip s = rev (dropWhile isspace (rev s))"

text \<open>\<open>s.rstrip(chars)\<close> and \<open>s.replace(a, b)\<close> for single characters.\<close>

definition rstrip_chars :: "string \<Rightarrow> string \<Rightarrow> string" where
  "rstrip_chars chars s = rev (dropWhile (\<lambda>c. c \<in> set chars) (rev s))"

definition replace_char :: "char \<Rightarrow> char \<Rightarrow> string \<Rightarrow> string" where
  "replace_char a b s = map (\<lambda>c. if c = a then b else c) s"

text \<open>
  \<open>len(_newline_re.findall(text))\<close> for \<open>_newline_re = (?:\r\n|\r|\n)\<close>: the matches are
  taken left to right without overlap, a carriage return followed by a line feed being one.
\<close>

fun count_newlines :: "string \<Rightarrow> nat" where
  "count_newlines [] = 0"
| "count_newlines [c] = (if c = carriage_return \<or> c = newline then 1 else 0)"
| "count_newlines (c # d # cs) =
     (if c = carriage_return \<and> d = newline then Suc (count_newlines cs)
      else if c = carriage_return \<or> c = newline then Suc (count_newlines (d # cs))
      else count_newlines (d # cs))"

section \<open>Compiled patterns\<close>

text \<open>
  A compiled regular expression of Python's \<open>re\<close> module is taken as a parameter: what
  the converter uses of it is whether \<open>search\<close> finds a match in a string, and the string
  \<open>sub(rep, s)\<close> returns.
\<close>

record regex =
  re_search :: "string \<Rightarrow> bool"
  re_sub :: "string \<Rightarrow> string \<Rightarrow> string"

text \<open>
  One concrete pattern for examples: \<open>re.compile(re.escape(p))\<close> for a non-empty \<open>p\<close>,
  replaced by a text without group references.
\<close>

fun replace_all :: "string \<Rightarrow> string \<Rightarrow> string \<Rightarrow> string" where
  "replace_all p rep [] = []"
| "replace_all p rep (c # cs) =
     (if p \<noteq> [] \<and> take (length p) (c # cs) = p
      then rep @ replace_all p rep (drop (length p) (c # cs))
      else c # replace_all p rep cs)"

fun contains :: "string \<Rightarrow> string \<Rightarrow> bool" where
  "contains p [] = (p = [])"
| "contains p (c # cs) = (take (length p) (c # cs) = p \<or> contains p cs)"

definition re_compile_escaped :: "string \<Rightarrow> regex" where
  "re_compile_escaped p = \<lparr> re_search = contains p, re_sub = replace_all p \<rparr>"

section \<open>The parsed template\<close>

text \<open>
  The input is a tree of Python objects built by Django's template parser. An object is
  modelled by the attributes the converter reads, in the order given below; \<open>Other\<close>
  stands for an object of any other class, known only by its module and class name.
  A diagnostic origin is the optional attribute \<open>source\<close> of an object, a pair of an
  origin and a position: the origin either holds the template text itself or names the
  template, whose text its loader returns.

  The module replaces the constructor of \<open>CycleNode\<close>, which then stores
  \<open>raw_cycle_vars = map(Variable, cyclevars)\<close>. In Python 3 this is a lazy iterator: it calls
  Django's \<open>Variable\<close> on the next constructor argument each time a value is taken from it,
  and it can be read once. \<open>Variable(cv)\<close> builds a variable from a string and raises
  \<open>TypeError\<close> for any other object; the model holds the outcome of the call for each
  argument, and the number of values already taken from the iterator is part of the state
  of a translation, kept under the identity of the iterator.
\<close>

datatype origin =
    StringOrigin string  \<comment> \<open>\<open>source\<close>\<close>
  | LoaderOrigin string string  \<comment> \<open>\<open>loadname\<close>, and the text \<open>loader(loadname, dirs)[0]\<close>\<close>

type_synonym source = "origin \<times> nat \<times> nat"

datatype token_type = TOKEN_TEXT | TOKEN_VAR | TOKEN_BLOCK | TOKEN_COMMENT

datatype token = Token token_type string  \<comment> \<open>\<open>token_type\<close>, \<open>contents\<close>\<close>

datatype pyobj = Obj "source option" shape
and shape =
    TextNode string  \<comment> \<open>\<open>s\<close>\<close>
  | Variable string "lit option" bool  \<comment> \<open>\<open>var\<close>, \<open>literal\<close>, \<open>translate\<close>\<close>
  | VariableNode pyobj  \<comment> \<open>\<open>filter_expression\<close>\<close>
  | FilterExpression pyobj "(string option \<times> farg list) list"
      \<comment> \<open>\<open>var\<close>; \<open>filters\<close>, each filter function given by its \<open>_filter_name\<close> attribute\<close>
  | SafeText string  \<comment> \<open>a string marked safe (an instance of \<open>SafeData\<close>)\<close>
  | CommentNode
  | DebugNode
  | ForNode "string list" bool pyobj "pyobj list" "pyobj list"
      \<comment> \<open>\<open>loopvars\<close>, \<open>is_reversed\<close>, \<open>sequence\<close>, \<open>nodelist_loop\<close>, \<open>nodelist_empty\<close>\<close>
  | IfNode "(pyobj option \<times> pyobj list) list"  \<comment> \<open>\<open>conditions_nodelists\<close>\<close>
  | TemplateLiteral pyobj  \<comment> \<open>a smartif \<open>Literal\<close>: \<open>value\<close>\<close>
  | Operator string pyobj "pyobj option"  \<comment> \<open>a smartif operator: \<open>id\<close>, \<open>first\<close>, \<open>second\<close>\<close>
  | IfEqualNode pyobj pyobj "pyobj list" "pyobj list" bool
      \<comment> \<open>\<open>var1\<close>, \<open>var2\<close>, \<open>nodelist_true\<close>, \<open>nodelist_false\<close>, \<open>negate\<close>\<close>
  | BlockNode string "pyobj list" "pyobj option"  \<comment> \<open>\<open>name\<close>, \<open>nodelist\<close>, \<open>parent\<close>\<close>
  | ExtendsNode pyobj "pyobj list"  \<comment> \<open>\<open>parent_name\<close>, \<open>nodelist\<close>\<close>
  | IncludeNode pyobj  \<comment> \<open>\<open>template\<close>\<close>
  | CycleNode nat "made list" "string option"
      \<comment> \<open>\<open>raw_cycle_vars\<close>: the identity of the \<open>map\<close> object and the outcomes of \<open>Variable(cv)\<close>
          for the constructor arguments \<open>cyclevars\<close>; \<open>variable_name\<close>\<close>
  | FilterNode pyobj "pyobj list"  \<comment> \<open>\<open>filter_expr\<close>, \<open>nodelist\<close>\<close>
  | AutoEscapeControlNode bool "pyobj list"  \<comment> \<open>\<open>setting\<close>, \<open>nodelist\<close>\<close>
  | SpacelessNode "pyobj list"  \<comment> \<open>\<open>nodelist\<close>\<close>
  | TemplateTagNode string  \<comment> \<open>\<open>tagtype\<close>\<close>
  | URLNode pyobj "pyobj list" "(string \<times> pyobj) list" "string option"
      \<comment> \<open>\<open>view_name\<close>, \<open>args\<close>, \<open>kwargs\<close>, \<open>asvar\<close>\<close>
  | WidthRatioNode pyobj pyobj "int option"
      \<comment> \<open>\<open>val_expr\<close>, \<open>max_expr\<close>, \<open>max_width\<close>: the integer, or \<open>None\<close> for an object that \<open>int\<close>
          does not convert\<close>
  | WithNode "(string \<times> pyobj) list" "pyobj list"  \<comment> \<open>\<open>extra_context\<close>, \<open>nodelist\<close>\<close>
  | RegroupNode pyobj pyobj string  \<comment> \<open>\<open>target\<close>, \<open>expression\<close>, \<open>var_name\<close>\<close>
  | LoadNode
  | GetAvailableLanguagesNode string  \<comment> \<open>\<open>variable\<close>\<close>
  | GetCurrentLanguageNode string  \<comment> \<open>\<open>variable\<close>\<close>
  | GetCurrentLanguageBidiNode string  \<comment> \<open>\<open>variable\<close>\<close>
  | TranslateNode "pyobj option"  \<comment> \<open>\<open>value\<close>, when the object has this attribute\<close>
  | BlockTranslateNode "(string \<times> pyobj) list" "token list" "token list" "string option" "pyobj option"
      \<comment> \<open>\<open>extra_context\<close>, \<open>singular\<close>, \<open>plural\<close>, \<open>countervar\<close>, \<open>counter\<close>\<close>
  | SimpleNode "string \<times> string" "pyobj list" "(string \<times> pyobj) list" "string option"
      \<comment> \<open>\<open>func.__module__\<close> and \<open>func.__name__\<close>, \<open>args\<close>, \<open>kwargs\<close>, \<open>target_var\<close>\<close>
  | InclusionNode "string \<times> string" "pyobj list" "(string \<times> pyobj) list"
      \<comment> \<open>\<open>func.__module__\<close> and \<open>func.__name__\<close>, \<open>args\<close>, \<open>kwargs\<close>\<close>
  | StaticNode pyobj "string option"  \<comment> \<open>\<open>path\<close>, \<open>varname\<close>\<close>
  | CsrfTokenNode
  | VerbatimNode string  \<comment> \<open>\<open>content\<close>\<close>
  | LoremNode string string  \<comment> \<open>\<open>str(count)\<close>, \<open>method\<close>\<close>
  | Other string string  \<comment> \<open>\<open>__module__\<close>, \<open>__class__.__name__\<close>\<close>
and farg =
    VarArg pyobj  \<comment> \<open>\<open>(True, value)\<close>: a variable\<close>
  | ConstArg lit  \<comment> \<open>\<open>(False, value)\<close>: a constant\<close>
and made =
    Made pyobj  \<comment> \<open>the constructor returns this object\<close>
  | Raises py_error  \<comment> \<open>the constructor raises\<close>
section \<open>Types and the handler table\<close>

text \<open>
  A Python class is identified by its module and its name. \<open>type_of\<close> gives the class
  of each modelled object.
\<close>

type_synonym pytype = "string \<times> string"

primrec type_of :: "shape \<Rightarrow> pytype" where
  "type_of (TextNode _) = (''django.template.base'', ''TextNode'')"
| "type_of (Variable _ _ _) = (''django.template.base'', ''Variable'')"
| "type_of (VariableNode _) = (''django.template.base'', ''VariableNode'')"
| "type_of (FilterExpression _ _) = (''django.template.base'', ''FilterExpression'')"
| "type_of (SafeText _) = (''django.utils.safestring'', ''SafeText'')"
| "type_of CommentNode = (''django.template.defaulttags'', ''CommentNode'')"
| "type_of DebugNode = (''django.template.defaulttags'', ''DebugNode'')"
| "type_of (ForNode _ _ _ _ _) = (''django.template.defaulttags'', ''ForNode'')"
| "type_of (IfNode _) = (''django.template.defaulttags'', ''IfNode'')"
| "type_of (TemplateLiteral _) = (''django.template.defaulttags'', ''TemplateLiteral'')"
| "type_of (Operator _ _ _) = (''django.template.smartif'', ''Operator'')"
| "type_of (IfEqualNode _ _ _ _ _) = (''django.template.defaulttags'', ''IfEqualNode'')"
| "type_of (BlockNode _ _ _) = (''django.template.loader_tags'', ''BlockNode'')"
| "type_of (ExtendsNode _ _) = (''django.template.loader_tags'', ''ExtendsNode'')"
| "type_of (IncludeNode _) = (''django.template.loader_tags'', ''IncludeNode'')"
| "type_of (CycleNode _ _ _) = (''django.template.defaulttags'', ''CycleNode'')"
| "type_of (FilterNode _ _) = (''django.template.defaulttags'', ''FilterNode'')"
| "type_of (AutoEscapeControlNode _ _) = (''django.template.defaulttags'', ''AutoEscapeControlNode'')"
| "type_of (SpacelessNode _) = (''django.template.defaulttags'', ''SpacelessNode'')"
| "type_of (TemplateTagNode _) = (''django.template.defaulttags'', ''TemplateTagNode'')"
| "type_of (URLNode _ _ _ _) = (''django.template.defaulttags'', ''URLNode'')"
| "type_of (WidthRatioNode _ _ _) = (''django.template.defaulttags'', ''WidthRatioNode'')"
| "type_of (WithNode _ _) = (''django.template.defaulttags'', ''WithNode'')"
| "type_of (RegroupNode _ _ _) = (''django.template.defaulttags'', ''RegroupNode'')"
| "type_of LoadNode = (''django.template.defaulttags'', ''LoadNode'')"
| "type_of (GetAvailableLanguagesNode _) = (''django.templatetags.i18n'', ''GetAvailableLanguagesNode'')"
| "type_of (GetCurrentLanguageNode _) = (''django.templatetags.i18n'', ''GetCurrentLanguageNode'')"
| "type_of (GetCurrentLanguageBidiNode _) = (''django.templatetags.i18n'', ''GetCurrentLanguageBidiNode'')"
| "type_of (TranslateNode _) = (''django.templatetags.i18n'', ''TranslateNode'')"
| "type_of (BlockTranslateNode _ _ _ _ _) = (''django.templatetags.i18n'', ''BlockTranslateNode'')"
| "type_of (SimpleNode _ _ _ _) = (''django.template.library'', ''SimpleNode'')"
| "type_of (InclusionNode _ _ _) = (''django.template.library'', ''InclusionNode'')"
| "type_of (StaticNode _ _) = (''django.templatetags.static'', ''StaticNode'')"
| "type_of CsrfTokenNode = (''django.template.defaulttags'', ''CsrfTokenNode'')"
| "type_of (VerbatimNode _) = (''django.template.defaulttags'', ''VerbatimNode'')"
| "type_of (LoremNode _ _) = (''django.template.defaulttags'', ''LoremNode'')"
| "type_of (Other m c) = (m, c)"

definition node_type :: "pyobj \<Rightarrow> pytype" where
  "node_type n = (case n of Obj _ sh \<Rightarrow> type_of sh)"

text \<open>
  The handlers are module-level functions registered with the decorator \<open>node(cls)\<close>.
  The table stores them as values; \<open>handler\<close> names each of them (the function
  \<open>comment_tag\<close> is defined twice in the module, first for comments and then for the
  debug tag). A key of the table is a class or the name of a class.
\<close>

datatype handler =
    H_text_node | H_variable | H_variable_node | H_filter_expression | H_comment_tag
  | H_comment_tag_debug | H_for_loop | H_if_condition | H_operator | H_if_equal | H_block
  | H_extends | H_include | H_cycle | H_filter | H_autoescape_control | H_spaceless
  | H_template_tag | H_url_tag | H_width_ratio | H_with_block | H_regroup | H_warn_load
  | H_get_available_languages | H_get_current_language | H_get_current_language_bidi
  | H_simple_gettext | H_translate_block | H_simple_tag | H_inclusion_tag | H_static_tag
  | H_csrf_tag | H_verbatim_tag | H_lorem_tag

datatype key = Class pytype | ClassName string

text \<open>The module's table \<open>_node_handlers\<close>, in the order of registration.\<close>

definition default_node_handlers :: "(key \<times> handler) list" where
  "default_node_handlers =
    [(Class (''django.template.base'', ''TextNode''), H_text_node),
     (Class (''django.template.base'', ''Variable''), H_variable),
     (Class (''django.template.base'', ''VariableNode''), H_variable_node),
     (Class (''django.template.base'', ''FilterExpression''), H_filter_expression),
     (Class (''django.template.defaulttags'', ''CommentNode''), H_comment_tag),
     (Class (''django.template.defaulttags'', ''DebugNode''), H_comment_tag_debug),
     (Class (''django.template.defaulttags'', ''ForNode''), H_for_loop),
     (Class (''django.template.defaulttags'', ''IfNode''), H_if_condition),
     (ClassName ''Operator'', H_operator),
     (Class (''django.template.defaulttags'', ''IfEqualNode''), H_if_equal),
     (Class (''django.template.loader_tags'', ''BlockNode''), H_block),
     (Class (''django.template.loader_tags'', ''ExtendsNode''), H_extends),
     (Class (''django.template.loader_tags'', ''IncludeNode''), H_include),
     (Class (''django.template.defaulttags'', ''CycleNode''), H_cycle),
     (Class (''django.template.defaulttags'', ''FilterNode''), H_filter),
     (Class (''django.template.defaulttags'', ''AutoEscapeControlNode''), H_autoescape_control),
     (Class (''django.template.defaulttags'', ''SpacelessNode''), H_spaceless),
     (Class (''django.template.defaulttags'', ''TemplateTagNode''), H_template_tag),
     (Class (''django.template.defaulttags'', ''URLNode''), H_url_tag),
     (Class (''django.template.defaulttags'', ''WidthRatioNode''), H_width_ratio),
     (Class (''django.template.defaulttags'', ''WithNode''), H_with_block),
     (Class (''django.template.defaulttags'', ''RegroupNode''), H_regroup),
     (Class (''django.template.defaulttags'', ''LoadNode''), H_warn_load),
     (Class (''django.templatetags.i18n'', ''GetAvailableLanguagesNode''), H_get_available_languages),
     (Class (''django.templatetags.i18n'', ''GetCurrentLanguageNode''), H_get_current_language),
     (Class (''django.templatetags.i18n'', ''GetCurrentLanguageBidiNode''), H_get_current_language_bidi),
     (Class (''django.templatetags.i18n'', ''TranslateNode''), H_simple_gettext),
     (Class (''django.templatetags.i18n'', ''BlockTranslateNode''), H_translate_block),
     (ClassName ''SimpleNode'', H_simple_tag),
     (ClassName ''InclusionNode'', H_inclusion_tag),
     (Class (''django.templatetags.static'', ''StaticNode''), H_static_tag),
     (Class (''django.template.defaulttags'', ''CsrfTokenNode''), H_csrf_tag),
     (Class (''django.template.defaulttags'', ''VerbatimNode''), H_verbatim_tag),
     (Class (''django.template.defaulttags'', ''LoremNode''), H_lorem_tag)]"

section \<open>The writer\<close>

text \<open>
  The target runtime, as far as the converter consults it: the names of its filters and
  of its globals.
\<close>

record environment =
  env_filters :: "string list"
  env_globals :: "string list"

text \<open>
  The state of a \<open>Writer\<close>. The two streams hold the text written so far; an exception
  ends the translation, and the model then returns the exception only. The last two
  fields are not attributes of the writer. \<open>resolved_simple_tags\<close> is the reverse index
  \<open>_resolved_simple_tags\<close> from the qualified name of a tag function to the name the tag
  is registered under, which the module builds once from the libraries of the Django
  engine; it is taken as given. \<open>consumed\<close> is the state of the iterators
  \<open>raw_cycle_vars\<close> of the cycle nodes, which a translation advances: for the identity of
  each iterator, the number of values already taken from it.
\<close>

record writer =
  stream :: string
  error_stream :: string
  block_start_string :: string
  block_end_string :: string
  variable_start_string :: string
  variable_end_string :: string
  comment_start_string :: string
  comment_end_string :: string
  autoescape :: bool
  spaceless :: bool
  use_jinja_autoescape :: bool
  loop_depth :: int
  var_re :: "(regex \<times> string \<times> regex option) list"
  env :: "environment option"
  resolved_simple_tags :: "(string \<times> string) list"
  consumed :: "nat \<Rightarrow> nat"

text \<open>
  \<open>Writer()\<close> with every argument at its default, writing to two empty streams, when no
  iterator of a cycle node has been read yet. The delimiters are those of
  \<open>jinja2.defaults\<close>.
\<close>

definition Writer :: writer where
  "Writer = \<lparr> stream = [], error_stream = [],
     block_start_string = ''{%'', block_end_string = ''%}'',
     variable_start_string = ''{{'', variable_end_string = ''}}'',
     comment_start_string = ''{#'', comment_end_string = ''#}'',
     autoescape = True, spaceless = False, use_jinja_autoescape = False,
     loop_depth = 0, var_re = [], env = None,
     resolved_simple_tags = [], consumed = (\<lambda>_. 0) \<rparr>"

text \<open>
  \<open>custom_node_handlers\<close> is \<open>None\<close>, its default (a custom handler is an arbitrary Python
  function), so the attribute \<open>node_handlers\<close> of every writer is a copy of the module's
  table.
\<close>

definition node_handlers :: "writer \<Rightarrow> (key \<times> handler) list" where
  "node_handlers w = default_node_handlers"

definition enter_loop :: "writer \<Rightarrow> writer" where
  "enter_loop w = w\<lparr>loop_depth := loop_depth w + 1\<rparr>"

definition leave_loop :: "writer \<Rightarrow> writer" where
  "leave_loop w = w\<lparr>loop_depth := loop_depth w - 1\<rparr>"

definition in_loop :: "writer \<Rightarrow> bool" where
  "in_loop w = (loop_depth w > 0)"

definition writes :: "writer \<Rightarrow> string \<Rightarrow> writer" where
  "writes w s = w\<lparr>stream := stream w @ s\<rparr>"

definition post_open :: "writer \<Rightarrow> writer" where
  "post_open w = (if spaceless w then writes w ''- '' else writes w '' '')"

definition pre_close :: "writer \<Rightarrow> writer" where
  "pre_close w = (if spaceless w then writes w '' -'' else writes w '' '')"

definition start_variable :: "writer \<Rightarrow> writer" where
  "start_variable w = post_open (writes w (variable_start_string w))"

definition end_variable :: "writer \<Rightarrow> bool \<Rightarrow> writer" where
  "end_variable w always_safe =
     (let w = (if \<not> always_safe \<and> autoescape w \<and> \<not> use_jinja_autoescape w
               then writes w ''|e'' else w);
          w = pre_close w
      in writes w (variable_end_string w))"

definition print_expr :: "writer \<Rightarrow> string \<Rightarrow> writer" where
  "print_expr w expr = end_variable (writes (start_variable w) expr) False"

definition start_block :: "writer \<Rightarrow> writer" where
  "start_block w = post_open (writes w (block_start_string w))"

definition end_block :: "writer \<Rightarrow> writer" where
  "end_block w = (let w = pre_close w in writes w (block_end_string w))"

definition tag :: "writer \<Rightarrow> string \<Rightarrow> writer" where
  "tag w name = end_block (writes (start_block w) name)"

text \<open>
  \<open>translate_variable_name\<close>: the condition of the first statement is Python's
  \<open>self.in_loop and var == 'forloop' or var.startswith('forloop.')\<close>, in which \<open>and\<close>
  binds tighter than \<open>or\<close>; the value \<open>no_unless\<close> of the loop is
  \<open>unless and unless.search(var) or True\<close>.
\<close>

fun apply_var_re :: "(regex \<times> string \<times> regex option) list \<Rightarrow> string \<Rightarrow> string" where
  "apply_var_re [] var = var"
| "apply_var_re ((reg, rep, unless) # rest) var =
     (let no_unless = ((case unless of None \<Rightarrow> False | Some u \<Rightarrow> re_search u var) \<or> True)
      in if re_search reg var \<and> no_unless then re_sub reg rep var
         else apply_var_re rest var)"

definition translate_variable_name :: "writer \<Rightarrow> string \<Rightarrow> string" where
  "translate_variable_name w var =
     (let var = (if (in_loop w \<and> var = ''forloop'') \<or> startswith var ''forloop.''
                 then drop 3 var else var)
      in apply_var_re (var_re w) var)"

definition variable :: "writer \<Rightarrow> string \<Rightarrow> writer" where
  "variable w name = writes w (translate_variable_name w name)"

definition literal :: "writer \<Rightarrow> lit \<Rightarrow> writer" where
  "literal w v =
     (let value = repr v;
          value = (if take 2 value = [CHR ''u'', dquote] \<or> take 2 value = [CHR ''u'', squote]
                   then drop 1 value else value)
      in writes w value)"

definition get_location :: "source \<Rightarrow> string \<times> nat" where
  "get_location src =
     (case src of (origin, start, _) \<Rightarrow>
        (case origin of
           StringOrigin text \<Rightarrow> (''<unknown source>'', count_newlines (take start text) + 1)
         | LoaderOrigin loadname text \<Rightarrow> (loadname, count_newlines (take start text) + 1)))"

text \<open>
  \<open>warn\<close> prints one line to the error stream: the message, after the location of the
  node when a node is given and has a \<open>source\<close>.
\<close>

definition warn_message :: "string \<Rightarrow> pyobj option \<Rightarrow> string" where
  "warn_message message nd =
     (case nd of
        Some (Obj (Some src) _) \<Rightarrow>
          (case get_location src of (filename, lineno) \<Rightarrow>
             ''['' @ filename @ '':'' @ str_nat lineno @ ''] '' @ message)
      | _ \<Rightarrow> message)"

definition warn :: "writer \<Rightarrow> string \<Rightarrow> pyobj option \<Rightarrow> writer" where
  "warn w message nd = w\<lparr>error_stream := error_stream w @ warn_message message nd @ [newline]\<rparr>"

definition get_filter_name :: "string option \<Rightarrow> string option" where
  "get_filter_name filter_func = filter_func"

text \<open>\<open>force_text(x)\<close> and \<open>'%s' % x\<close> of a name that may be \<open>None\<close>.\<close>

definition str_opt :: "string option \<Rightarrow> string" where
  "str_opt x = (case x of None \<Rightarrow> ''None'' | Some s \<Rightarrow> s)"

text \<open>
  \<open>get_simple_tag_name\<close>: for an object that is neither a \<open>SimpleNode\<close> nor an
  \<open>InclusionNode\<close> the method evaluates the module-level name \<open>node\<close>, which the module
  deletes in its last line.
\<close>

definition get_simple_tag_name :: "writer \<Rightarrow> pyobj \<Rightarrow> py_error + string option" where
  "get_simple_tag_name w n =
     (case n of
        Obj _ (SimpleNode func _ _ _) \<Rightarrow>
          Inr (map_of (resolved_simple_tags w) (fst func @ ''.'' @ snd func))
      | Obj _ (InclusionNode func _ _) \<Rightarrow>
          Inr (map_of (resolved_simple_tags w) (fst func @ ''.'' @ snd func))
      | _ \<Rightarrow> Inl NameError)"

fun lookup_handler :: "(key \<times> handler) list \<Rightarrow> pyobj \<Rightarrow> handler option" where
  "lookup_handler [] n = None"
| "lookup_handler ((cls, h) # rest) n =
     (if (case cls of Class t \<Rightarrow> node_type n = t | ClassName name \<Rightarrow> snd (node_type n) = name)
      then Some h else lookup_handler rest n)"


section \<open>Loops and sequencing\<close>

text \<open>
  \<open>bnd\<close> runs the rest of a function on the result of a step that did not raise. For
  the definition of recursive functions it is enough to know the rest on the results
  the step can have.
\<close>

lemma bnd_cong [fundef_cong]:
  "m = m' \<Longrightarrow> (\<And>x. m' = Inr x \<Longrightarrow> f x = f' x) \<Longrightarrow> bnd m f = bnd m' f'"
  by (auto simp: bnd_def split: sum.splits)

text \<open>
  A Python loop \<open>for idx, x in enumerate(xs)\<close> whose body may raise: the body receives
  the index, the element and the state of the loop, and an exception ends the loop.
\<close>

fun for_each :: "(nat \<Rightarrow> 'a \<Rightarrow> 's \<Rightarrow> py_error + 's) \<Rightarrow> nat \<Rightarrow> 'a list \<Rightarrow> 's \<Rightarrow> py_error + 's" where
  "for_each f idx [] s = Inr s"
| "for_each f idx (x # xs) s = bnd (f idx x s) (for_each f (Suc idx) xs)"

lemma for_each_cong [fundef_cong]:
  "xs = ys \<Longrightarrow> i = j \<Longrightarrow> s = s' \<Longrightarrow> (\<And>k x v. x \<in> set ys \<Longrightarrow> f k x v = g k x v)
   \<Longrightarrow> for_each f i xs s = for_each g j ys s'"
proof (induction ys arbitrary: xs i j s s')
  case Nil
  then show ?case by simp
next
  case (Cons y ys)
  have "for_each f (Suc j) ys v = for_each g (Suc j) ys v" for v
    by (rule Cons.IH) (simp_all add: Cons.prems)
  then show ?case using Cons.prems by (simp add: bnd_def split: sum.splits)
qed

section \<open>The boolean-expression linearizer\<close>

text \<open>
  \<open>_if_condition_to_bits_backwards\<close> is a generator; the model returns the list of the
  values it yields. A condition is a smartif \<open>Literal\<close> or an operator object; the test
  \<open>isinstance(condition, OPERATORS['not'])\<close> holds for the operator objects whose \<open>id\<close>
  is \<open>not\<close>. An operand that is absent is \<open>None\<close>.
\<close>

fun if_condition_to_bits_backwards :: "pyobj \<Rightarrow> py_error + pyobj list" where
  "if_condition_to_bits_backwards (Obj src sh) =
     (case sh of
        TemplateLiteral v \<Rightarrow> Inr [v]
      | Operator ident first second \<Rightarrow>
          bnd (case second of
                 Some s \<Rightarrow> if_condition_to_bits_backwards s
               | None \<Rightarrow> Inr [])
            (\<lambda>bits2.
               bnd (if_condition_to_bits_backwards first)
                 (\<lambda>bits1.
                    if ident = ''not'' then Inr (bits2 @ bits1 @ [Obj src sh])
                    else Inr (bits2 @ [Obj src sh] @ bits1)))
      | _ \<Rightarrow> Inl AttributeError)"

definition if_condition_to_bits :: "pyobj \<Rightarrow> py_error + pyobj list" where
  "if_condition_to_bits condition =
     bnd (if_condition_to_bits_backwards condition) (\<lambda>backward_bits. Inr (rev backward_bits))"

section \<open>Handlers that translate no child\<close>

text \<open>
  A handler is a function \<open>(writer, node) -> None\<close>; the model returns the writer it
  leaves, or the exception. A handler that reads an attribute its object does not have
  raises \<open>AttributeError\<close>.
\<close>

definition text_node :: "writer \<Rightarrow> pyobj \<Rightarrow> py_error + writer" where
  "text_node w n =
     (case n of Obj _ (TextNode s) \<Rightarrow> Inr (writes w s) | _ \<Rightarrow> Inl AttributeError)"

definition variable_handler :: "writer \<Rightarrow> pyobj \<Rightarrow> py_error + writer" where
  "variable_handler w n =
     (case n of
        Obj _ (Variable var lit_opt translate) \<Rightarrow>
          (let w = (if translate
                    then writes (warn w ''i18n system used, make sure to install translations'' (Some n))
                           ''_(''
                    else w);
               w = (case lit_opt of Some v \<Rightarrow> literal w v | None \<Rightarrow> variable w var);
               w = (if translate then writes w '')'' else w)
           in Inr w)
      | _ \<Rightarrow> Inl AttributeError)"

definition comment_tag :: "writer \<Rightarrow> pyobj \<Rightarrow> py_error + writer" where
  "comment_tag w n = Inr w"

definition comment_tag_debug :: "writer \<Rightarrow> pyobj \<Rightarrow> py_error + writer" where
  "comment_tag_debug w n =
     (let w = warn w
                ''Debug tag detected.  Make sure to add a global function called debug to the namespace.''
                (Some n)
      in Inr (print_expr w ''debug()''))"

text \<open>The \<open>id\<close> of a smartif \<open>Literal\<close> is the text \<open>literal\<close>.\<close>

definition operator :: "writer \<Rightarrow> pyobj \<Rightarrow> py_error + writer" where
  "operator w n =
     (case n of
        Obj _ (Operator ident _ _) \<Rightarrow> Inr (writes w ident)
      | Obj _ (TemplateLiteral _) \<Rightarrow> Inr (writes w ''literal'')
      | _ \<Rightarrow> Inl AttributeError)"

definition template_tag :: "writer \<Rightarrow> pyobj \<Rightarrow> py_error + writer" where
  "template_tag w n =
     (case n of
        Obj _ (TemplateTagNode tagtype) \<Rightarrow>
          (case map_of
                  [(''openblock'', block_start_string w),
                   (''closeblock'', block_end_string w),
                   (''openvariable'', variable_start_string w),
                   (''closevariable'', variable_end_string w),
                   (''opencomment'', comment_start_string w),
                   (''closecomment'', comment_end_string w),
                   (''openbrace'', ''{''),
                   (''closebrace'', ''}'')] tagtype of
             Some t \<Rightarrow>
               if t \<noteq> [] then Inr (end_variable (literal (start_variable w) (LStr t)) False)
               else Inr w
           | None \<Rightarrow> Inr w)
      | _ \<Rightarrow> Inl AttributeError)"

definition warn_load :: "writer \<Rightarrow> pyobj \<Rightarrow> py_error + writer" where
  "warn_load w n = Inr w"

definition get_available_languages :: "writer \<Rightarrow> pyobj \<Rightarrow> py_error + writer" where
  "get_available_languages w n =
     (case n of
        Obj _ (GetAvailableLanguagesNode v) \<Rightarrow>
          (let w = warn w ''make sure to provide a get_available_languages function'' (Some n)
           in Inr (tag w (''set '' @ translate_variable_name w v @ '' = get_available_languages()'')))
      | _ \<Rightarrow> Inl AttributeError)"

definition get_current_language :: "writer \<Rightarrow> pyobj \<Rightarrow> py_error + writer" where
  "get_current_language w n =
     (case n of
        Obj _ (GetCurrentLanguageNode v) \<Rightarrow>
          (let w = warn w ''make sure to provide a get_current_language function'' (Some n)
           in Inr (tag w (''set '' @ translate_variable_name w v @ '' = get_current_language()'')))
      | _ \<Rightarrow> Inl AttributeError)"

definition get_current_language_bidi :: "writer \<Rightarrow> pyobj \<Rightarrow> py_error + writer" where
  "get_current_language_bidi w n =
     (case n of
        Obj _ (GetCurrentLanguageBidiNode v) \<Rightarrow>
          (let w = warn w ''make sure to provide a get_current_language_bidi function'' (Some n)
           in Inr (tag w (''set '' @ translate_variable_name w v @ '' = get_current_language_bidi()'')))
      | _ \<Rightarrow> Inl AttributeError)"

definition csrf_tag :: "writer \<Rightarrow> pyobj \<Rightarrow> py_error + writer" where
  "csrf_tag w n = Inr (end_variable (writes (start_variable w) ''csrf_token()'') False)"

definition verbatim_tag :: "writer \<Rightarrow> pyobj \<Rightarrow> py_error + writer" where
  "verbatim_tag w n =
     (case n of
        Obj _ (VerbatimNode content) \<Rightarrow> Inr (tag (writes (tag w ''raw'') content) ''endraw'')
      | _ \<Rightarrow> Inl AttributeError)"

text \<open>
  \<open>lorem_tag\<close>: the count is an object, so \<open>min_max\<close> is true whenever it is the count;
  \<open>format\<close> prints the count by its \<open>str\<close>.
\<close>

definition lorem_tag :: "writer \<Rightarrow> pyobj \<Rightarrow> py_error + writer" where
  "lorem_tag w n =
     (case n of
        Obj _ (LoremNode count_str method) \<Rightarrow>
          (let uses_html = (method = ''p'');
               min_max = (if method = ''w'' then Some count_str else None);
               count = (if method = ''w'' then ''1'' else count_str);
               w = start_variable w;
               func_string = ''lipsum(n='' @ count @ '', html=''
                  @ (if uses_html then ''True'' else ''False'');
               func_string = (case min_max of
                                Some m \<Rightarrow> func_string @ '', min='' @ m @ '', max='' @ m
                              | None \<Rightarrow> func_string);
               func_string = func_string @ '')'';
               w = writes w func_string
           in Inr (end_variable w False))
      | _ \<Rightarrow> Inl AttributeError)"

section \<open>Helpers of the handlers that translate children\<close>

text \<open>\<open>isinstance(x, SafeData)\<close>, with the text of the string when it holds.\<close>

definition safe_data :: "pyobj \<Rightarrow> string option" where
  "safe_data x = (case x of Obj _ (SafeText s) \<Rightarrow> Some s | _ \<Rightarrow> None)"

text \<open>The truth value of an attribute that holds a string or \<open>None\<close>.\<close>

definition truthy :: "string option \<Rightarrow> bool" where
  "truthy x = (case x of None \<Rightarrow> False | Some s \<Rightarrow> s \<noteq> [])"

text \<open>
  The loop \<open>while node.parent is not None: node = node.parent\<close> of the handler \<open>block\<close>.
\<close>

fun block_root :: "pyobj \<Rightarrow> py_error + pyobj" where
  "block_root (Obj src sh) =
     (case sh of
        BlockNode name nodelist parent \<Rightarrow>
          (case parent of None \<Rightarrow> Inr (Obj src sh) | Some p \<Rightarrow> block_root p)
      | _ \<Rightarrow> Inl AttributeError)"

text \<open>
  The initial stripping of the handler \<open>spaceless\<close>: the first node loses its leading
  white space and the last node its trailing white space, when they are text nodes; the
  new text nodes have no \<open>source\<close>.
\<close>

definition strip_nodelist :: "pyobj list \<Rightarrow> pyobj list" where
  "strip_nodelist nodelist =
     (if nodelist \<noteq> [] then
        (let nodelist = (case hd nodelist of
                           Obj _ (TextNode s) \<Rightarrow> nodelist[0 := Obj None (TextNode (lstrip s))]
                         | _ \<Rightarrow> nodelist);
             nodelist = (case last nodelist of
                           Obj _ (TextNode s) \<Rightarrow>
                             nodelist[length nodelist - 1 := Obj None (TextNode (rstrip s))]
                         | _ \<Rightarrow> nodelist)
         in nodelist)
      else nodelist)"

text \<open>
  The local state of \<open>translate_block\<close>: the list \<open>first_var\<close> and the set \<open>variables\<close>,
  with its two local functions.
\<close>

type_synonym trans_vars = "string list \<times> string list"

definition touch_var :: "string \<Rightarrow> trans_vars \<Rightarrow> trans_vars" where
  "touch_var name vars =
     (case vars of (first_var, variables) \<Rightarrow>
        (if first_var = [] then [name] else first_var, List.insert name variables))"

definition dump_token_list :: "token list \<Rightarrow> writer \<times> trans_vars \<Rightarrow> writer \<times> trans_vars" where
  "dump_token_list tokens st =
     fold (\<lambda>tok (w, vars).
             case tok of
               Token TOKEN_TEXT contents \<Rightarrow> (writes w contents, vars)
             | Token TOKEN_VAR contents \<Rightarrow> (print_expr w contents, touch_var contents vars)
             | _ \<Rightarrow> (w, vars))
       tokens st"

text \<open>\<open>name not in writer.env.globals and name not in writer.env.filters\<close>.\<close>

definition unknown_tag :: "environment \<Rightarrow> string option \<Rightarrow> bool" where
  "unknown_tag e name =
     (case name of
        None \<Rightarrow> True
      | Some s \<Rightarrow> s \<notin> set (env_globals e) \<and> s \<notin> set (env_filters e))"

definition warn_unknown_tag :: "writer \<Rightarrow> string option \<Rightarrow> writer" where
  "warn_unknown_tag w name =
     (case env w of
        Some e \<Rightarrow>
          if unknown_tag e name
          then warn w (''Tag '' @ str_opt name @ '' probably doesn'' @ [squote] @ ''t exist in Jinja'') None
          else w
      | None \<Rightarrow> w)"

section \<open>The settings of a writer\<close>

text \<open>
  \<open>settings w\<close> is the writer \<open>w\<close> without the text of its two streams and without the
  state of the iterators: the delimiters, the flags, the loop depth, the rewrite rules
  and the target runtime.
\<close>

definition settings :: "writer \<Rightarrow> writer" where
  "settings w = w\<lparr>stream := [], error_stream := [], consumed := (\<lambda>_. 0)\<rparr>"

section \<open>Sizes of the objects a handler translates\<close>

text \<open>
  Every handler translates objects that are parts of its own object: a child, a bit of a
  condition, the body of the root of a block, or a stripped copy of a node list, which
  has the size of the list. This is why the translation terminates.
\<close>

lemma mem_size_list: "x \<in> set xs \<Longrightarrow> f x < size_list f xs"
  by (induction xs) auto

lemma size_list_drop: "size_list f (drop k xs) \<le> size_list f xs"
proof (induction xs arbitrary: k)
  case Nil
  show ?case by simp
next
  case (Cons x xs)
  show ?case
  proof (cases k)
    case 0
    then show ?thesis by simp
  next
    case (Suc j)
    with Cons.IH [of j] show ?thesis by simp
  qed
qed

lemma size_list_update:
  "i < length xs \<Longrightarrow> f y = f (xs ! i) \<Longrightarrow> size_list f (xs[i := y]) = size_list f xs"
proof (induction xs arbitrary: i)
  case Nil
  then show ?case by simp
next
  case (Cons x xs)
  then show ?case by (cases i) auto
qed

lemma size_strip_first:
  "ns \<noteq> [] \<Longrightarrow>
   size_list size (case hd ns of
                     Obj _ (TextNode s) \<Rightarrow> ns[0 := Obj None (TextNode (lstrip s))]
                   | _ \<Rightarrow> ns) = size_list size ns"
  by (auto simp: hd_conv_nth size_list_update split: pyobj.splits shape.splits)

lemma strip_first_nonempty:
  "ns \<noteq> [] \<Longrightarrow>
   (case hd ns of
      Obj _ (TextNode s) \<Rightarrow> ns[0 := Obj None (TextNode (lstrip s))]
    | _ \<Rightarrow> ns) \<noteq> []"
  by (auto split: pyobj.splits shape.splits)

lemma size_strip_last:
  "ms \<noteq> [] \<Longrightarrow>
   size_list size (case last ms of
                     Obj _ (TextNode s) \<Rightarrow> ms[length ms - 1 := Obj None (TextNode (rstrip s))]
                   | _ \<Rightarrow> ms) = size_list size ms"
  by (auto simp: last_conv_nth size_list_update split: pyobj.splits shape.splits)

lemma size_strip_nodelist: "size_list size (strip_nodelist ns) = size_list size ns"
  by (simp add: strip_nodelist_def Let_def size_strip_first strip_first_nonempty size_strip_last)

lemma size_block_root: "block_root n = Inr r \<Longrightarrow> size r \<le> size n"
proof (induction n rule: block_root.induct)
  case (1 src sh)
  show ?case
  proof (cases sh)
    case (BlockNode name nodelist parent)
    show ?thesis
    proof (cases parent)
      case None
      with 1 BlockNode show ?thesis by simp
    next
      case (Some p)
      with 1 BlockNode have "size r \<le> size p" by simp
      with BlockNode Some show ?thesis by simp
    qed
  qed (use 1 in auto)
qed

lemma size_bits_backwards:
  "if_condition_to_bits_backwards c = Inr bits \<Longrightarrow> b \<in> set bits \<Longrightarrow> size b \<le> size c"
proof (induction c arbitrary: bits rule: if_condition_to_bits_backwards.induct)
  case (1 src sh)
  show ?case
  proof (cases sh)
    case (TemplateLiteral v)
    with 1 show ?thesis by auto
  next
    case (Operator ident first second)
    show ?thesis
    proof (cases second)
      case None
      with 1 Operator show ?thesis
        by (fastforce simp: bnd_def split: sum.splits if_splits)
    next
      case (Some s)
      with 1 Operator show ?thesis
        by (fastforce simp: bnd_def split: sum.splits if_splits)
    qed
  qed (use 1 in auto)
qed

lemma size_bits: "if_condition_to_bits c = Inr bits \<Longrightarrow> b \<in> set bits \<Longrightarrow> size b \<le> size c"
  by (auto simp: if_condition_to_bits_def bnd_def split: sum.splits dest: size_bits_backwards)

section \<open>Dispatch and the handlers that translate children\<close>

text \<open>
  \<open>node\<close> is \<open>Writer.node\<close>, \<open>body\<close> is \<open>Writer.body\<close>, \<open>filters\<close> is \<open>Writer.filters\<close>,
  and \<open>run h\<close> is the call of the handler \<open>h\<close>. The four are defined together, since the
  handlers translate the children of their node through the writer.

  The loop of \<open>cycle\<close> reads the iterator \<open>raw_cycle_vars\<close>: each step takes the next
  constructor argument, which advances the iterator, and calls \<open>Variable\<close> on it, which
  may raise. The values are variables, whose translation reads no iterator, so the
  arguments of the loop are those the iterator has left when the loop starts.
\<close>

function (sequential) node :: "writer \<Rightarrow> pyobj \<Rightarrow> py_error + writer"
  and body :: "writer \<Rightarrow> pyobj list \<Rightarrow> py_error + writer"
  and filters :: "writer \<Rightarrow> (string option \<times> farg list) list \<Rightarrow> bool \<Rightarrow> py_error + writer"
  and run :: "handler \<Rightarrow> writer \<Rightarrow> pyobj \<Rightarrow> py_error + writer"
where
  "node w n =
     (case lookup_handler (node_handlers w) n of
        Some h \<Rightarrow> run h w n
      | None \<Rightarrow>
          Inr (warn w (''Untranslatable node '' @ fst (node_type n) @ ''.'' @ snd (node_type n)
                       @ '' found'') (Some n)))"
| "body w nodes = for_each (\<lambda>idx n w. node w n) 0 nodes w"
| "filters w fs is_block =
     bnd (for_each
            (\<lambda>i (filter_func, args) (w, want_pipe).
               case get_filter_name filter_func of
                 None \<Rightarrow> Inr (warn w (''Could not find filter '' @ str_opt None) None, want_pipe)
               | Some name \<Rightarrow>
                   (case env w of
                      None \<Rightarrow> Inl AttributeError
                    | Some e \<Rightarrow>
                        (let w = (if name \<notin> set (env_filters e)
                                  then warn w (''Filter '' @ name @ '' probably doesn'' @ [squote]
                                               @ ''t exist in Jinja'') None
                                  else w);
                             w = (if \<not> want_pipe then w else writes w ''|'');
                             w = writes w name
                         in bnd (if args \<noteq> [] then
                                   bnd (for_each
                                          (\<lambda>idx a w.
                                             let w = (if idx \<noteq> 0 then writes w '', '' else w)
                                             in case a of
                                                  VarArg v \<Rightarrow> node w v
                                                | ConstArg v \<Rightarrow> Inr (literal w v))
                                          0 args (writes w ''(''))
                                     (\<lambda>w. Inr (writes w '')''))
                                 else Inr w)
                              (\<lambda>w. Inr (w, True)))))
            0 fs (w, \<not> is_block))
       (\<lambda>(w, want_pipe). Inr w)"
| "run H_text_node w n = text_node w n"
| "run H_variable w n = variable_handler w n"
| "run H_variable_node w n =
     (case n of
        Obj _ (VariableNode fe) \<Rightarrow>
          (let w = start_variable w
           in case fe of
                Obj _ (FilterExpression (Obj _ (Variable var _ _)) fs) \<Rightarrow>
                  bnd (if var = ''block.super'' \<and> fs = [] then Inr (writes w ''super()'')
                       else node w fe)
                    (\<lambda>w. Inr (end_variable w False))
              | _ \<Rightarrow> Inl AttributeError)
      | _ \<Rightarrow> Inl AttributeError)"
| "run H_filter_expression w n =
     (case n of
        Obj _ (FilterExpression v fs) \<Rightarrow>
          bnd (case safe_data v of
                 Some s \<Rightarrow> Inr (literal w (LStr s))
               | None \<Rightarrow> node w v)
            (\<lambda>w. filters w fs False)
      | _ \<Rightarrow> Inl AttributeError)"
| "run H_comment_tag w n = comment_tag w n"
| "run H_comment_tag_debug w n = comment_tag_debug w n"
| "run H_for_loop w n =
     (case n of
        Obj _ (ForNode loopvars is_reversed sequence nodelist_loop nodelist_empty) \<Rightarrow>
          (let w = start_block w;
               w = writes w ''for '';
               w = fold (\<lambda>(idx, var) w. variable (if idx \<noteq> 0 then writes w '', '' else w) var)
                     (enumerate 0 loopvars) w;
               w = writes w '' in '';
               w = (if is_reversed then writes w ''('' else w)
           in bnd (node w sequence) (\<lambda>w.
                let w = (if is_reversed then writes w '')|reverse'' else w);
                    w = end_block w;
                    w = enter_loop w
                in bnd (body w nodelist_loop) (\<lambda>w.
                     let w = leave_loop w
                     in bnd (if nodelist_empty \<noteq> [] then body (tag w ''else'') nodelist_empty
                             else Inr w)
                          (\<lambda>w. Inr (tag w ''endfor'')))))
      | _ \<Rightarrow> Inl AttributeError)"
| "run H_if_condition w n =
     (case n of
        Obj _ (IfNode conditions_nodelists) \<Rightarrow>
          bnd (for_each
                 (\<lambda>x (condition, nodelist) w.
                    let w = start_block w;
                        w = (if x = 0 then writes w ''if''
                             else if condition = None then writes w ''else''
                             else writes w ''elif'')
                    in bnd (case condition of
                              Some c \<Rightarrow>
                                (case if_condition_to_bits c of
                                   Inl e \<Rightarrow> Inl e
                                 | Inr condition_bits \<Rightarrow>
                                     for_each (\<lambda>idx b w. node (writes w '' '') b) 0 condition_bits w)
                            | None \<Rightarrow> Inr w)
                         (\<lambda>w. body (end_block w) nodelist))
                 0 conditions_nodelists w)
            (\<lambda>w. Inr (tag w ''endif''))
      | _ \<Rightarrow> Inl AttributeError)"
| "run H_operator w n = operator w n"
| "run H_if_equal w n =
     (case n of
        Obj _ (IfEqualNode var1 var2 nodelist_true nodelist_false negate) \<Rightarrow>
          bnd (node (writes (start_block w) ''if '') var1) (\<lambda>w.
            let w = (if negate then writes w '' != '' else writes w '' == '')
            in bnd (node w var2) (\<lambda>w.
                 bnd (body (end_block w) nodelist_true) (\<lambda>w.
                   bnd (if nodelist_false \<noteq> [] then body (tag w ''else'') nodelist_false
                        else Inr w)
                     (\<lambda>w. Inr (tag w ''endif'')))))
      | _ \<Rightarrow> Inl AttributeError)"
| "run H_block w n =
     (case n of
        Obj _ (BlockNode name _ _) \<Rightarrow>
          (let w = tag w (''block '' @ rstrip_chars ''_'' (replace_char CHR ''-'' CHR ''_'' name))
           in case block_root n of
                Inl e \<Rightarrow> Inl e
              | Inr root \<Rightarrow>
                  (case root of
                     Obj _ (BlockNode _ nodelist _) \<Rightarrow>
                       bnd (body w nodelist) (\<lambda>w. Inr (tag w ''endblock''))
                   | _ \<Rightarrow> Inl AttributeError))
      | _ \<Rightarrow> Inl AttributeError)"
| "run H_extends w n =
     (case n of
        Obj _ (ExtendsNode parent_name nodelist) \<Rightarrow>
          bnd (node (writes (start_block w) ''extends '') parent_name) (\<lambda>w.
            body (end_block w) nodelist)
      | _ \<Rightarrow> Inl AttributeError)"
| "run H_include w n =
     (case n of
        Obj _ (IncludeNode template) \<Rightarrow>
          bnd (node (writes (start_block w) ''include '') template) (\<lambda>w. Inr (end_block w))
      | _ \<Rightarrow> Inl AttributeError)"
| "run H_cycle w n =
     (if \<not> in_loop w then Inr (warn w ''Untranslatable free cycle (cycle outside loop)'' (Some n))
      else
        case n of
          Obj _ (CycleNode it cyclevars variable_name) \<Rightarrow>
            (let w = (case variable_name of
                        Some name \<Rightarrow> writes (start_block w) (''set '' @ name @ '' = '')
                      | None \<Rightarrow> start_variable w);
                 w = writes w ''loop.cycle(''
             in bnd (for_each
                       (\<lambda>idx made w.
                          let w = w\<lparr>consumed := (consumed w)(it := Suc (consumed w it))\<rparr>
                          in case made of
                               Raises e \<Rightarrow> Inl e
                             | Made var \<Rightarrow> node (if idx \<noteq> 0 then writes w '', '' else w) var)
                       0 (drop (consumed w it) cyclevars) w) (\<lambda>w.
                  let w = writes w '')''
                  in Inr (case variable_name of
                            Some name \<Rightarrow> end_block w
                          | None \<Rightarrow> end_variable w False)))
        | _ \<Rightarrow> Inl AttributeError)"
| "run H_filter w n =
     (case n of
        Obj _ (FilterNode filter_expr nodelist) \<Rightarrow>
          (case filter_expr of
             Obj _ (FilterExpression _ fs) \<Rightarrow>
               bnd (filters (writes (start_block w) ''filter '') fs True) (\<lambda>w.
                 bnd (body (end_block w) nodelist) (\<lambda>w. Inr (tag w ''endfilter'')))
           | _ \<Rightarrow> Inl AttributeError)
      | _ \<Rightarrow> Inl AttributeError)"
| "run H_autoescape_control w n =
     (let original = autoescape w
      in case n of
           Obj _ (AutoEscapeControlNode setting nodelist) \<Rightarrow>
             bnd (body (w\<lparr>autoescape := setting\<rparr>) nodelist) (\<lambda>w.
               Inr (w\<lparr>autoescape := original\<rparr>))
         | _ \<Rightarrow> Inl AttributeError)"
| "run H_spaceless w n =
     (let original = spaceless w;
          w = w\<lparr>spaceless := True\<rparr>;
          w = warn w ''entering spaceless mode with different semantics'' (Some n)
      in case n of
           Obj _ (SpacelessNode nodelist) \<Rightarrow>
             bnd (body w (strip_nodelist nodelist)) (\<lambda>w. Inr (w\<lparr>spaceless := original\<rparr>))
         | _ \<Rightarrow> Inl AttributeError)"
| "run H_template_tag w n = template_tag w n"
| "run H_url_tag w n =
     (case n of
        Obj _ (URLNode view_name args kwargs asvar) \<Rightarrow>
          (let w = (if truthy asvar then writes (start_block w) (''set '' @ str_opt asvar @ '' = '')
                    else start_variable w);
               w = writes w ''url(''
           in bnd (node w view_name) (\<lambda>w.
                bnd (for_each (\<lambda>idx arg w. node (writes w '', '') arg) 0 args w) (\<lambda>w.
                  bnd (for_each (\<lambda>idx (key, arg) w. node (writes w ('', '' @ key @ ''='')) arg)
                         0 kwargs w) (\<lambda>w.
                    let w = writes w '')''
                    in Inr (if truthy asvar then end_block w else end_variable w False)))))
      | _ \<Rightarrow> Inl AttributeError)"
| "run H_width_ratio w n =
     (let w = warn w
                ''widthratio expanded into formula.  You may want to provide a helper function for this calculation''
                (Some n);
          w = start_variable w;
          w = writes w ''(''
      in case n of
           Obj _ (WidthRatioNode val_expr max_expr max_width) \<Rightarrow>
             bnd (node w val_expr) (\<lambda>w.
               bnd (node (writes w '' / '') max_expr) (\<lambda>w.
                 let w = writes w '' * ''
                 in case max_width of
                      None \<Rightarrow> Inl TypeError
                    | Some k \<Rightarrow>
                        (let w = writes w (str_int k);
                             w = writes w '')|round|int''
                         in Inr (end_variable w True))))
         | _ \<Rightarrow> Inl AttributeError)"
| "run H_with_block w n =
     (case n of
        Obj _ (WithNode extra_context nodelist) \<Rightarrow>
          bnd (for_each
                 (\<lambda>x (key, v) w.
                    let w = (if x \<noteq> 0 then writes w '', '' else w);
                        w = writes w key;
                        w = writes w ''=''
                    in node w v)
                 0 extra_context (writes (start_block w) ''with '')) (\<lambda>w.
            bnd (body (end_block w) nodelist) (\<lambda>w. Inr (tag w ''endwith'')))
      | _ \<Rightarrow> Inl AttributeError)"
| "run H_regroup w n =
     (case n of
        Obj _ (RegroupNode target expression var_name) \<Rightarrow>
          (case expression of
             Obj _ (FilterExpression (Obj _ (Variable var lit_opt _)) fs) \<Rightarrow>
               if lit_opt \<noteq> None \<and> lit_opt \<noteq> Some (LStr []) \<and> lit_opt \<noteq> Some (LInt 0) then
                 Inr (warn w
                        ''literal in groupby filter used.   Behavior in that situation is undefined and translation is skipped.''
                        (Some n))
               else
                 (let w = (if fs \<noteq> [] then
                             warn w
                               ''filters in groupby filter used.   Behavior in that situation is undefined which is most likely a bug in your code.  Filters were ignored.''
                               (Some n)
                           else w);
                      w = start_block w;
                      w = writes w (''set '' @ var_name @ '' = '')
                  in bnd (node w target) (\<lambda>w.
                       let w = writes w ''|groupby('';
                           w = literal w (LStr var);
                           w = writes w '')''
                       in Inr (end_block w)))
           | _ \<Rightarrow> Inl AttributeError)
      | _ \<Rightarrow> Inl AttributeError)"
| "run H_warn_load w n = warn_load w n"
| "run H_get_available_languages w n = get_available_languages w n"
| "run H_get_current_language w n = get_current_language w n"
| "run H_get_current_language_bidi w n = get_current_language_bidi w n"
| "run H_simple_gettext w n =
     (let w = warn w ''i18n system used, make sure to install translations'' (Some n);
          w = start_variable w;
          w = writes w ''_(''
      in case n of
           Obj _ (TranslateNode v) \<Rightarrow>
             (case v of
                None \<Rightarrow> Inl AttributeError
              | Some v \<Rightarrow> bnd (node w v) (\<lambda>w. Inr (end_variable (writes w '')'') False)))
         | _ \<Rightarrow> Inl AttributeError)"
| "run H_translate_block w n =
     (case n of
        Obj _ (BlockTranslateNode extra_context singular plural countervar counter) \<Rightarrow>
          (let w = warn w ''i18n system used, make sure to install translations'' (Some n);
               w = start_block w;
               w = writes w ''trans''
           in bnd (for_each
                     (\<lambda>idx (key, var) w.
                        let w = (if idx \<noteq> 0 then writes w '','' else w);
                            w = writes w ('' '' @ key @ ''='')
                        in case var of
                             Obj _ (VariableNode fe) \<Rightarrow> node w fe
                           | _ \<Rightarrow> Inl AttributeError)
                     0 extra_context w) (\<lambda>w.
                let vars = fold touch_var (map fst extra_context) ([], []);
                    have_plural = (plural \<noteq> [] \<and> truthy countervar \<and> counter \<noteq> None);
                    plural_var = str_opt countervar
                in bnd (case counter of
                          Some c \<Rightarrow>
                            if have_plural \<and> plural_var \<notin> set (snd vars) then
                              (let w = (if extra_context \<noteq> [] then writes w '','' else w);
                                   vars = touch_var plural_var vars;
                                   w = writes w ('' '' @ plural_var @ ''='')
                               in bnd (node w c) (\<lambda>w. Inr (w, vars)))
                            else Inr (w, vars)
                        | None \<Rightarrow> Inr (w, vars)) (\<lambda>(w, vars).
                     case dump_token_list singular (end_block w, vars) of (w, vars) \<Rightarrow>
                       if have_plural then
                         (case fst vars of
                            [] \<Rightarrow> Inl IndexError
                          | first # _ \<Rightarrow>
                              (let w = start_block w;
                                   w = writes w ''pluralize'';
                                   w = (if plural_var \<noteq> first then writes w ('' '' @ plural_var)
                                        else w);
                                   w = end_block w
                               in case dump_token_list plural (w, vars) of (w, vars) \<Rightarrow>
                                    Inr (tag w ''endtrans'')))
                       else Inr (tag w ''endtrans''))))
      | _ \<Rightarrow> Inl AttributeError)"
| "run H_simple_tag w n =
     (case get_simple_tag_name w n of
        Inl e \<Rightarrow> Inl e
      | Inr name \<Rightarrow>
          (let w = warn_unknown_tag w name
           in case n of
                Obj _ (SimpleNode func args kwargs target_var) \<Rightarrow>
                  (let w = (if truthy target_var
                            then writes (start_block w)
                                   (''set '' @ str_opt target_var @ ''='' @ str_opt name)
                            else writes (start_variable w) (str_opt name));
                       w = writes w ''('';
                       has_args = (args \<noteq> [])
                   in bnd (for_each (\<lambda>idx var w. node (if idx \<noteq> 0 then writes w '', '' else w) var)
                             0 args w) (\<lambda>w.
                        bnd (for_each
                               (\<lambda>idx (key, val) w.
                                  let w = (if has_args \<or> idx \<noteq> 0 then writes w '', '' else w)
                                  in node (writes w (key @ ''='')) val)
                               0 kwargs w) (\<lambda>w.
                          let w = writes w '')''
                          in Inr (if truthy target_var then end_block w
                                  else end_variable w False))))
              | _ \<Rightarrow> Inl AttributeError))"
| "run H_inclusion_tag w n =
     (case get_simple_tag_name w n of
        Inl e \<Rightarrow> Inl e
      | Inr name \<Rightarrow>
          (let w = warn_unknown_tag w name;
               w = start_variable w;
               w = writes w (str_opt name);
               w = writes w ''(''
           in case n of
                Obj _ (InclusionNode func args kwargs) \<Rightarrow>
                  (let has_args = (args \<noteq> [])
                   in bnd (for_each (\<lambda>idx var w. node (if idx \<noteq> 0 then writes w '', '' else w) var)
                             0 args w) (\<lambda>w.
                        bnd (for_each
                               (\<lambda>idx (key, val) w.
                                  let w = (if has_args \<or> idx \<noteq> 0 then writes w '', '' else w)
                                  in node (writes w (key @ ''='')) val)
                               0 kwargs w) (\<lambda>w.
                          Inr (end_variable (writes w '')'') False))))
              | _ \<Rightarrow> Inl AttributeError))"
| "run H_static_tag w n =
     (case n of
        Obj _ (StaticNode path varname) \<Rightarrow>
          (let w = (if truthy varname
                    then writes (start_block w) (''set '' @ str_opt varname @ ''=static('')
                    else writes (start_variable w) ''static('')
           in bnd (node w path) (\<lambda>w.
                let w = writes w '')''
                in Inr (if truthy varname then end_block w else end_variable w False)))
      | _ \<Rightarrow> Inl AttributeError)"
| "run H_csrf_tag w n = csrf_tag w n"
| "run H_verbatim_tag w n = verbatim_tag w n"
| "run H_lorem_tag w n = lorem_tag w n"
  by pat_completeness auto

termination
  apply (relation "measure (\<lambda>x. case x of
      Inl (Inl (w, n)) \<Rightarrow> 2 * size n + 1
    | Inl (Inr (w, ns)) \<Rightarrow> 2 * size_list size ns + 1
    | Inr (Inl (w, fs, b)) \<Rightarrow> 2 * size_list (size_prod (\<lambda>_. 0) (size_list size)) fs + 1
    | Inr (Inr (h, w, n)) \<Rightarrow> 2 * size n)")
  apply (simp_all add: size_strip_nodelist del: block_root.simps)
  apply (auto dest!: mem_size_list[where f="size :: pyobj \<Rightarrow> nat"]
                     mem_size_list[where f="size :: farg \<Rightarrow> nat"]
                     mem_size_list[where f="size_prod (\<lambda>_. 0) (size_list (size :: farg \<Rightarrow> nat))"])[2]
  apply (frule (1) size_bits,
         auto dest!: mem_size_list[where f="size_prod (size_option (size :: pyobj \<Rightarrow> nat)) (size_list size)"])[1]
  apply (auto dest!: mem_size_list[where f="size_prod (size_option (size :: pyobj \<Rightarrow> nat)) (size_list size)"])[1]
  apply (frule size_block_root, simp)
  apply (auto dest!:
                     mem_size_list[where f="size :: pyobj \<Rightarrow> nat"]
                     mem_size_list[where f="size :: made \<Rightarrow> nat"]
                     mem_size_list[where f="size_prod (\<lambda>x. 0) (size :: pyobj \<Rightarrow> nat)"])
  apply (drule less_le_trans [OF _ size_list_drop], simp)
  done

section \<open>The handler of each class\<close>

text \<open>
  What the lookup in the table gives for an object of each modelled class. Marked strings
  and smartif literals have no handler.
\<close>

lemma lookup_handler_default:
  "lookup_handler (node_handlers w) (Obj s1 (TextNode a1)) = Some H_text_node"
  "lookup_handler (node_handlers w) (Obj s2 (Variable a2 b2 c2)) = Some H_variable"
  "lookup_handler (node_handlers w) (Obj s3 (VariableNode a3)) = Some H_variable_node"
  "lookup_handler (node_handlers w) (Obj s4 (FilterExpression a4 b4)) = Some H_filter_expression"
  "lookup_handler (node_handlers w) (Obj s5 CommentNode) = Some H_comment_tag"
  "lookup_handler (node_handlers w) (Obj s6 DebugNode) = Some H_comment_tag_debug"
  "lookup_handler (node_handlers w) (Obj s7 (ForNode a7 b7 c7 d7 e7)) = Some H_for_loop"
  "lookup_handler (node_handlers w) (Obj s8 (IfNode a8)) = Some H_if_condition"
  "lookup_handler (node_handlers w) (Obj s9 (Operator a9 b9 c9)) = Some H_operator"
  "lookup_handler (node_handlers w) (Obj s10 (IfEqualNode a10 b10 c10 d10 e10)) = Some H_if_equal"
  "lookup_handler (node_handlers w) (Obj s11 (BlockNode a11 b11 c11)) = Some H_block"
  "lookup_handler (node_handlers w) (Obj s12 (ExtendsNode a12 b12)) = Some H_extends"
  "lookup_handler (node_handlers w) (Obj s13 (IncludeNode a13)) = Some H_include"
  "lookup_handler (node_handlers w) (Obj s14 (CycleNode a14 b14 c14)) = Some H_cycle"
  "lookup_handler (node_handlers w) (Obj s15 (FilterNode a15 b15)) = Some H_filter"
  "lookup_handler (node_handlers w) (Obj s16 (AutoEscapeControlNode a16 b16)) = Some H_autoescape_control"
  "lookup_handler (node_handlers w) (Obj s17 (SpacelessNode a17)) = Some H_spaceless"
  "lookup_handler (node_handlers w) (Obj s18 (TemplateTagNode a18)) = Some H_template_tag"
  "lookup_handler (node_handlers w) (Obj s19 (URLNode a19 b19 c19 d19)) = Some H_url_tag"
  "lookup_handler (node_handlers w) (Obj s20 (WidthRatioNode a20 b20 c20)) = Some H_width_ratio"
  "lookup_handler (node_handlers w) (Obj s21 (WithNode a21 b21)) = Some H_with_block"
  "lookup_handler (node_handlers w) (Obj s22 (RegroupNode a22 b22 c22)) = Some H_regroup"
  "lookup_handler (node_handlers w) (Obj s23 LoadNode) = Some H_warn_load"
  "lookup_handler (node_handlers w) (Obj s24 (GetAvailableLanguagesNode a24)) = Some H_get_available_languages"
  "lookup_handler (node_handlers w) (Obj s25 (GetCurrentLanguageNode a25)) = Some H_get_current_language"
  "lookup_handler (node_handlers w) (Obj s26 (GetCurrentLanguageBidiNode a26)) = Some H_get_current_language_bidi"
  "lookup_handler (node_handlers w) (Obj s27 (TranslateNode a27)) = Some H_simple_gettext"
  "lookup_handler (node_handlers w) (Obj s28 (BlockTranslateNode a28 b28 c28 d28 e28)) = Some H_translate_block"
  "lookup_handler (node_handlers w) (Obj s29 (SimpleNode a29 b29 c29 d29)) = Some H_simple_tag"
  "lookup_handler (node_handlers w) (Obj s30 (InclusionNode a30 b30 c30)) = Some H_inclusion_tag"
  "lookup_handler (node_handlers w) (Obj s31 (StaticNode a31 b31)) = Some H_static_tag"
  "lookup_handler (node_handlers w) (Obj s32 CsrfTokenNode) = Some H_csrf_tag"
  "lookup_handler (node_handlers w) (Obj s33 (VerbatimNode a33)) = Some H_verbatim_tag"
  "lookup_handler (node_handlers w) (Obj s34 (LoremNode a34 b34)) = Some H_lorem_tag"
  "lookup_handler (node_handlers w) (Obj s35 (SafeText a35)) = None"
  "lookup_handler (node_handlers w) (Obj s36 (TemplateLiteral a36)) = None"
  by (simp_all add: node_handlers_def default_node_handlers_def node_type_def)

declare lookup_handler_default [simp]

section \<open>Basic facts\<close>

lemma bnd_Inr_iff: "bnd m f = Inr y \<longleftrightarrow> (\<exists>x. m = Inr x \<and> f x = Inr y)"
  by (cases m) (simp_all add: bnd_def)

lemma bnd_simps [simp]: "bnd (Inr x) f = f x" "bnd (Inl e) f = Inl e"
  by (simp_all add: bnd_def)

lemma for_each_index:
  "for_each (\<lambda>idx. g) i xs s = for_each (\<lambda>idx. g) j xs s"
proof (induction xs arbitrary: i j s)
  case Nil
  show ?case by simp
next
  case (Cons x xs)
  have "for_each (\<lambda>idx. g) (Suc i) xs = for_each (\<lambda>idx. g) (Suc j) xs"
    using Cons.IH by blast
  then show ?case by simp
qed

lemma for_each_append:
  "for_each f i (xs @ ys) s = bnd (for_each f i xs s) (for_each f (i + length xs) ys)"
proof (induction xs arbitrary: i s)
  case Nil
  show ?case by simp
next
  case (Cons x xs)
  show ?case by (cases "f i x s") (simp_all add: Cons.IH)
qed

text \<open>\<open>Writer.body\<close> translates the nodes one after the other.\<close>

lemma body_Nil [simp]: "body w [] = Inr w"
  by simp

lemma body_Cons [simp]: "body w (n # ns) = bnd (node w n) (\<lambda>w. body w ns)"
proof -
  have "for_each (\<lambda>idx n w. node w n) (Suc 0) ns = for_each (\<lambda>idx n w. node w n) 0 ns"
    using for_each_index [of "\<lambda>n w. node w n" "Suc 0" ns _ 0] by blast
  then show ?thesis by simp
qed

lemma body_append: "body w (ms @ ns) = bnd (body w ms) (\<lambda>w. body w ns)"
proof -
  have "for_each (\<lambda>idx n w. node w n) (0 + length ms) ns = for_each (\<lambda>idx n w. node w n) 0 ns"
    using for_each_index [of "\<lambda>n w. node w n" "0 + length ms" ns _ 0] by blast
  then show ?thesis by (simp add: for_each_append)
qed

declare body.simps [simp del]

section \<open>Identifier translation\<close>

text \<open>
  The rule list is tried in order, the first rule whose match pattern hits is applied,
  and no later rule is tried; a name that no pattern hits is returned unchanged. The
  exclusion pattern of a rule has no influence.
\<close>

lemma apply_var_re_no_match:
  "\<forall>r \<in> set rules. \<not> re_search (fst r) var \<Longrightarrow> apply_var_re rules var = var"
  by (induction rules) auto

lemma apply_var_re_first_match:
  "\<forall>r \<in> set before. \<not> re_search (fst r) var \<Longrightarrow> re_search reg var \<Longrightarrow>
   apply_var_re (before @ (reg, rep, unless) # after) var = re_sub reg rep var"
  by (induction before) auto

text \<open>
  C2 (identifier translation skips a rule whose exclusion pattern hits). The code does
  not: with the rule that rewrites \<open>.url\<close> to \<open>.url()\<close> unless the name contains
  \<open>form.url\<close>, the name \<open>form.url\<close> is rewritten to \<open>form.url()\<close>.
\<close>

theorem translate_variable_name_ignores_exclusion:
  "translate_variable_name
     (Writer\<lparr>var_re := [(re_compile_escaped ''.url'', ''.url()'',
                          Some (re_compile_escaped ''form.url''))]\<rparr>)
     ''form.url'' = ''form.url()''"
  by (simp add: translate_variable_name_def Writer_def in_loop_def startswith_def
        re_compile_escaped_def)

text \<open>
  C3 (the loop-context prefix is stripped only inside a loop body). At loop depth 0 the
  code still turns \<open>forloop.counter\<close> into \<open>loop.counter\<close>; only the bare name
  \<open>forloop\<close> is kept outside a loop.
\<close>

theorem translate_variable_name_strips_outside_loop:
  "loop_depth Writer = 0 \<and>
   translate_variable_name Writer ''forloop.counter'' = ''loop.counter'' \<and>
   translate_variable_name Writer ''forloop'' = ''forloop''"
  by (simp add: translate_variable_name_def Writer_def in_loop_def startswith_def)

section \<open>Filters without a target runtime\<close>

text \<open>
  C4 (without a target-runtime handle, emitting a filter does not raise). With the
  default writer, whose \<open>env\<close> is \<open>None\<close>, the filter expression \<open>x|upper\<close> raises
  \<open>AttributeError\<close>: \<open>Writer.filters\<close> reads \<open>self.env.filters\<close> for every filter that
  has a name.
\<close>

theorem filters_without_env_raises:
  "env Writer = None \<and>
   node Writer (Obj None (FilterExpression (Obj None (Variable ''x'' None False))
                            [(Some ''upper'', [])]))
     = Inl AttributeError"
  by (simp add: variable_handler_def variable_def writes_def translate_variable_name_def
        in_loop_def startswith_def Writer_def get_filter_name_def safe_data_def)

section \<open>Linearization of conditions\<close>

text \<open>
  C5. For the condition \<open>A and not B\<close> (an infix \<open>and\<close> whose first operand is the
  literal \<open>A\<close> and whose second operand is a prefix \<open>not\<close> over the literal \<open>B\<close>), the
  bits are, in this order: the value of \<open>A\<close>, the operator \<open>and\<close>, the operator \<open>not\<close>,
  the value of \<open>B\<close>. Written by the handler of the \<open>if\<close> tag, with the variables \<open>A\<close>
  and \<open>B\<close> as the values, they read \<open>A and not B\<close>.
\<close>

theorem if_condition_to_bits_and_not:
  "if_condition_to_bits
     (Obj s1 (Operator ''and'' (Obj s2 (TemplateLiteral a))
        (Some (Obj s3 (Operator ''not'' (Obj s4 (TemplateLiteral b)) None)))))
   = Inr [a,
          Obj s1 (Operator ''and'' (Obj s2 (TemplateLiteral a))
            (Some (Obj s3 (Operator ''not'' (Obj s4 (TemplateLiteral b)) None)))),
          Obj s3 (Operator ''not'' (Obj s4 (TemplateLiteral b)) None),
          b]
   \<and> node Writer
       (Obj None (IfNode
          [(Some (Obj None (Operator ''and''
                    (Obj None (TemplateLiteral
                       (Obj None (FilterExpression (Obj None (Variable ''A'' None False)) []))))
                    (Some (Obj None (Operator ''not''
                       (Obj None (TemplateLiteral
                          (Obj None (FilterExpression (Obj None (Variable ''B'' None False)) []))))
                       None))))),
            [])]))
     = Inr (Writer\<lparr>stream := ''{% if A and not B %}{% endif %}''\<rparr>)"
  by (simp add: if_condition_to_bits_def variable_handler_def variable_def writes_def
        translate_variable_name_def in_loop_def startswith_def Writer_def safe_data_def
        start_block_def end_block_def post_open_def pre_close_def tag_def operator_def)

section \<open>The end-to-end loop\<close>

text \<open>
  C1, as amended. With the default writer, the loop node with the loop variable \<open>item\<close>,
  the sequence \<open>items\<close> and a body that prints \<open>item.name\<close> is written as
  \<open>{% for item in items %}{{ item.name|e }}{% endfor %}\<close>: the handlers write no white
  space between the tags, and the body holds no text node.
\<close>

theorem for_loop_end_to_end:
  "node Writer
     (Obj None (ForNode [''item''] False
        (Obj None (FilterExpression (Obj None (Variable ''items'' None False)) []))
        [Obj None (VariableNode
           (Obj None (FilterExpression (Obj None (Variable ''item.name'' None False)) [])))]
        []))
   = Inr (Writer\<lparr>stream := ''{% for item in items %}{{ item.name|e }}{% endfor %}''\<rparr>)"
  by (simp add: variable_handler_def variable_def writes_def translate_variable_name_def
        in_loop_def startswith_def Writer_def safe_data_def
        start_block_def end_block_def post_open_def pre_close_def tag_def enter_loop_def
        leave_loop_def start_variable_def end_variable_def)

text \<open>The text of the claim, with a space after the opening tag and before the closing tag, is not what is written.\<close>

theorem for_loop_end_to_end_counterexample:
  "(case node Writer
          (Obj None (ForNode [''item''] False
             (Obj None (FilterExpression (Obj None (Variable ''items'' None False)) []))
             [Obj None (VariableNode
                (Obj None (FilterExpression (Obj None (Variable ''item.name'' None False)) [])))]
             []))
    of Inl e \<Rightarrow> None | Inr w \<Rightarrow> Some (stream w))
   \<noteq> Some ''{% for item in items %} {{ item.name|e }} {% endfor %}''"
  by (simp add: variable_handler_def variable_def writes_def translate_variable_name_def
        in_loop_def startswith_def Writer_def safe_data_def
        start_block_def end_block_def post_open_def pre_close_def tag_def enter_loop_def
        leave_loop_def start_variable_def end_variable_def)

section \<open>The parent block\<close>

text \<open>
  C10. For a variable node whose filter expression refers to \<open>block.super\<close>: without
  filters the handler writes the opening of a variable, the text \<open>super()\<close> and the
  closing of a variable, whatever the rewrite rules of the writer are; with at least one
  filter it writes, between the same opening and closing, the translation of the filter
  expression, as it does for every other variable. With the default writer the first
  case gives \<open>{{ super()|e }}\<close>.
\<close>

theorem variable_node_block_super:
  "node w (Obj s (VariableNode (Obj s1 (FilterExpression (Obj s2 (Variable ''block.super'' l t)) fs))))
   = (if fs = [] then Inr (end_variable (writes (start_variable w) ''super()'') False)
      else bnd (node (start_variable w)
                  (Obj s1 (FilterExpression (Obj s2 (Variable ''block.super'' l t)) fs)))
             (\<lambda>w. Inr (end_variable w False)))
   \<and> node Writer
       (Obj None (VariableNode
          (Obj None (FilterExpression (Obj None (Variable ''block.super'' None False)) []))))
     = Inr (Writer\<lparr>stream := ''{{ super()|e }}''\<rparr>)"
proof (intro conjI)
  show "node w (Obj s (VariableNode (Obj s1 (FilterExpression (Obj s2 (Variable ''block.super'' l t)) fs))))
        = (if fs = [] then Inr (end_variable (writes (start_variable w) ''super()'') False)
           else bnd (node (start_variable w)
                       (Obj s1 (FilterExpression (Obj s2 (Variable ''block.super'' l t)) fs)))
                  (\<lambda>w. Inr (end_variable w False)))"
    by (simp add: Let_def)
  show "node Writer
          (Obj None (VariableNode
             (Obj None (FilterExpression (Obj None (Variable ''block.super'' None False)) []))))
        = Inr (Writer\<lparr>stream := ''{{ super()|e }}''\<rparr>)"
    by (simp add: writes_def Writer_def start_variable_def end_variable_def post_open_def
          pre_close_def)
qed

section \<open>The cycle tag\<close>

text \<open>
  C6. The cycle node with the raw values \<open>"a"\<close> and \<open>"b"\<close> and no assignment target. Its
  attribute \<open>raw_cycle_vars\<close> is the iterator \<open>map(Variable, cyclevars)\<close>, and the handler
  writes the values that the iterator still yields: at a loop depth of at least 1,

   \<^item> when the two raw values are strings (\<open>Variable\<close> builds the variables that hold the
     string constants \<open>a\<close> and \<open>b\<close>) and nothing has been taken from the iterator, the handler
     writes what \<open>print_expr\<close> writes for \<open>loop.cycle('a', 'b')\<close>, and leaves the iterator
     exhausted;

   \<^item> when the iterator is exhausted, as it is at every later translation of the same
     node, the handler writes what \<open>print_expr\<close> writes for \<open>loop.cycle()\<close>: the values are
     lost;

   \<^item> when \<open>Variable\<close> raises for the first raw value, as it does for a value that is not a
     string, the handler raises this exception;

  and at loop depth 0 the handler writes nothing to the output stream, prints one warning
  to the error stream and leaves the iterator as it is.
\<close>

theorem cycle_values_read_once:
  "(0 < loop_depth w \<and> consumed w it = 0 \<longrightarrow>
      node w (Obj src (CycleNode it
                [Made (Obj s1 (Variable va (Some (LStr ''a'')) False)),
                 Made (Obj s2 (Variable vb (Some (LStr ''b'')) False))] None))
      = Inr ((print_expr w
                (''loop.cycle('' @ [squote] @ ''a'' @ [squote] @ '', '' @ [squote] @ ''b''
                 @ [squote] @ '')''))
             \<lparr>consumed := (consumed w)(it := 2)\<rparr>))
   \<and> (0 < loop_depth w \<and> 2 \<le> consumed w it \<longrightarrow>
      node w (Obj src (CycleNode it
                [Made (Obj s1 (Variable va (Some (LStr ''a'')) False)),
                 Made (Obj s2 (Variable vb (Some (LStr ''b'')) False))] None))
      = Inr (print_expr w ''loop.cycle()''))
   \<and> (0 < loop_depth w \<and> consumed w it = 0 \<longrightarrow>
      node w (Obj src (CycleNode it (Raises e # rest) None)) = Inl e)
   \<and> (\<not> 0 < loop_depth w \<longrightarrow>
      node w (Obj src (CycleNode it
                [Made (Obj s1 (Variable va (Some (LStr ''a'')) False)),
                 Made (Obj s2 (Variable vb (Some (LStr ''b'')) False))] None))
      = Inr (w\<lparr>error_stream := error_stream w
                   @ warn_message ''Untranslatable free cycle (cycle outside loop)''
                       (Some (Obj src (CycleNode it
                          [Made (Obj s1 (Variable va (Some (LStr ''a'')) False)),
                           Made (Obj s2 (Variable vb (Some (LStr ''b'')) False))] None)))
                   @ [newline]\<rparr>))"
proof (intro conjI impI)
  assume "0 < loop_depth w \<and> consumed w it = 0"
  then show "node w (Obj src (CycleNode it
                [Made (Obj s1 (Variable va (Some (LStr ''a'')) False)),
                 Made (Obj s2 (Variable vb (Some (LStr ''b'')) False))] None))
      = Inr ((print_expr w
                (''loop.cycle('' @ [squote] @ ''a'' @ [squote] @ '', '' @ [squote] @ ''b''
                 @ [squote] @ '')''))
             \<lparr>consumed := (consumed w)(it := 2)\<rparr>)"
    by (simp add: in_loop_def variable_handler_def literal_def repr_def repr_str_def
          repr_char_def squote_def dquote_def backslash_def newline_def carriage_return_def
          isprintable_def print_expr_def writes_def start_variable_def end_variable_def
          post_open_def pre_close_def Let_def numeral_2_eq_2)
next
  assume "0 < loop_depth w \<and> 2 \<le> consumed w it"
  then show "node w (Obj src (CycleNode it
                [Made (Obj s1 (Variable va (Some (LStr ''a'')) False)),
                 Made (Obj s2 (Variable vb (Some (LStr ''b'')) False))] None))
      = Inr (print_expr w ''loop.cycle()'')"
    by (simp add: in_loop_def print_expr_def writes_def start_variable_def end_variable_def
          post_open_def pre_close_def Let_def)
next
  assume "0 < loop_depth w \<and> consumed w it = 0"
  then show "node w (Obj src (CycleNode it (Raises e # rest) None)) = Inl e"
    by (simp add: in_loop_def writes_def start_variable_def post_open_def Let_def)
next
  assume "\<not> 0 < loop_depth w"
  then show "node w (Obj src (CycleNode it
                [Made (Obj s1 (Variable va (Some (LStr ''a'')) False)),
                 Made (Obj s2 (Variable vb (Some (LStr ''b'')) False))] None))
      = Inr (w\<lparr>error_stream := error_stream w
                   @ warn_message ''Untranslatable free cycle (cycle outside loop)''
                       (Some (Obj src (CycleNode it
                          [Made (Obj s1 (Variable va (Some (LStr ''a'')) False)),
                           Made (Obj s2 (Variable vb (Some (LStr ''b'')) False))] None)))
                   @ [newline]\<rparr>)"
    by (simp add: in_loop_def warn_def)
qed

text \<open>
  With the default writer inside one loop: the first translation of the node writes
  \<open>{{ loop.cycle('a', 'b')|e }}\<close> and the second one \<open>{{ loop.cycle()|e }}\<close>; a node whose raw
  values are not strings makes the translation raise \<open>TypeError\<close>; outside of a loop the
  text is empty and the warning is the only line of the error stream.
\<close>

theorem cycle_translated_twice:
  "body (enter_loop Writer)
     [Obj None (CycleNode 0
        [Made (Obj None (Variable [dquote, CHR ''a'', dquote] (Some (LStr ''a'')) False)),
         Made (Obj None (Variable [dquote, CHR ''b'', dquote] (Some (LStr ''b'')) False))] None),
      Obj None (CycleNode 0
        [Made (Obj None (Variable [dquote, CHR ''a'', dquote] (Some (LStr ''a'')) False)),
         Made (Obj None (Variable [dquote, CHR ''b'', dquote] (Some (LStr ''b'')) False))] None)]
   = Inr ((enter_loop Writer)
            \<lparr>stream := ''{{ loop.cycle('' @ [squote] @ ''a'' @ [squote] @ '', ''
                        @ [squote] @ ''b'' @ [squote] @ '')|e }}{{ loop.cycle()|e }}'',
             consumed := (\<lambda>_. 0)(0 := 2)\<rparr>)
   \<and> node (enter_loop Writer)
       (Obj None (CycleNode 0 [Raises TypeError, Raises TypeError] None)) = Inl TypeError
   \<and> node Writer
       (Obj None (CycleNode 0
          [Made (Obj None (Variable [dquote, CHR ''a'', dquote] (Some (LStr ''a'')) False)),
           Made (Obj None (Variable [dquote, CHR ''b'', dquote] (Some (LStr ''b'')) False))] None))
     = Inr (Writer\<lparr>error_stream := ''Untranslatable free cycle (cycle outside loop)'' @ [newline]\<rparr>)"
  using cycle_values_read_once [of "enter_loop Writer" 0 None None "[dquote, CHR ''a'', dquote]"
          None "[dquote, CHR ''b'', dquote]" TypeError "[Raises TypeError]"]
        cycle_values_read_once
          [of "(print_expr (enter_loop Writer)
                  (''loop.cycle('' @ [squote] @ ''a'' @ [squote] @ '', '' @ [squote] @ ''b''
                   @ [squote] @ '')''))\<lparr>consumed := (\<lambda>_. 0)(0 := 2)\<rparr>"
              0 None None "[dquote, CHR ''a'', dquote]" None "[dquote, CHR ''b'', dquote]"]
        cycle_values_read_once [of Writer 0 None None "[dquote, CHR ''a'', dquote]"
          None "[dquote, CHR ''b'', dquote]"]
  by (simp add: enter_loop_def Writer_def print_expr_def writes_def start_variable_def
        end_variable_def post_open_def pre_close_def warn_message_def Let_def)

section \<open>Untranslatable nodes\<close>

text \<open>
  C7. When no key of the handler table matches the class of a node, neither as a class
  nor as a class name, \<open>node\<close> writes nothing to the output stream and prints one line to
  the error stream, the message \<open>Untranslatable node <module>.<class> found\<close> (after the
  location of the node when it has a source), and \<open>body\<close> goes on with the nodes that
  follow, in order.
\<close>

theorem untranslatable_node:
  assumes "lookup_handler (node_handlers w) n = None"
  shows "node w n
         = Inr (w\<lparr>error_stream := error_stream w
                  @ warn_message (''Untranslatable node '' @ fst (node_type n) @ ''.''
                                  @ snd (node_type n) @ '' found'') (Some n)
                  @ [newline]\<rparr>)
         \<and> body w (before @ n # after)
           = bnd (body w before)
               (\<lambda>w. body (w\<lparr>error_stream := error_stream w
                             @ warn_message (''Untranslatable node '' @ fst (node_type n) @ ''.''
                                             @ snd (node_type n) @ '' found'') (Some n)
                             @ [newline]\<rparr>) after)"
proof -
  have "lookup_handler (node_handlers v) n = None" for v
    using assms by (simp add: node_handlers_def)
  then have "node v n
             = Inr (v\<lparr>error_stream := error_stream v
                      @ warn_message (''Untranslatable node '' @ fst (node_type n) @ ''.''
                                      @ snd (node_type n) @ '' found'') (Some n)
                      @ [newline]\<rparr>)" for v
    by (simp add: warn_def)
  then show ?thesis by (simp add: body_append)
qed

text \<open>
  A document of a text node, an object of the class \<open>myapp.templatetags.MyNode\<close> and
  another text node: both texts are written, and the warning is printed once.
\<close>

theorem untranslatable_node_witness:
  "lookup_handler (node_handlers Writer) (Obj None (Other ''myapp.templatetags'' ''MyNode'')) = None
   \<and> body Writer [Obj None (TextNode ''a''), Obj None (Other ''myapp.templatetags'' ''MyNode''),
                  Obj None (TextNode ''b'')]
     = Inr (Writer\<lparr>stream := ''ab'',
                    error_stream := ''Untranslatable node myapp.templatetags.MyNode found''
                                    @ [newline]\<rparr>)"
proof -
  have h: "lookup_handler (node_handlers Writer) (Obj None (Other ''myapp.templatetags'' ''MyNode'')) = None"
    by (simp add: node_handlers_def default_node_handlers_def node_type_def)
  show ?thesis
    using h untranslatable_node [OF h, of "[Obj None (TextNode ''a'')]" "[Obj None (TextNode ''b'')]"]
    by (simp add: text_node_def writes_def warn_message_def node_type_def Writer_def)
qed

section \<open>What a translation leaves unchanged\<close>

lemma settings_eq_iff:
  "settings w' = settings w \<longleftrightarrow>
   w' = w\<lparr>stream := stream w', error_stream := error_stream w', consumed := consumed w'\<rparr>"
  by (cases w, cases w') (auto simp: settings_def)

lemma settings_consumed_update [simp]: "settings (w\<lparr>consumed := f\<rparr>) = settings w"
  by (simp add: settings_def)

lemma settings_writes [simp]: "settings (writes w s) = settings w"
  by (simp add: settings_def writes_def)

lemma settings_warn [simp]: "settings (warn w m nd) = settings w"
  by (simp add: settings_def warn_def)

lemma settings_post_open [simp]: "settings (post_open w) = settings w"
  by (simp add: post_open_def)

lemma settings_pre_close [simp]: "settings (pre_close w) = settings w"
  by (simp add: pre_close_def)

lemma settings_start_variable [simp]: "settings (start_variable w) = settings w"
  by (simp add: start_variable_def)

lemma settings_end_variable [simp]: "settings (end_variable w b) = settings w"
  by (simp add: end_variable_def Let_def)

lemma settings_print_expr [simp]: "settings (print_expr w e) = settings w"
  by (simp add: print_expr_def)

lemma settings_start_block [simp]: "settings (start_block w) = settings w"
  by (simp add: start_block_def)

lemma settings_end_block [simp]: "settings (end_block w) = settings w"
  by (simp add: end_block_def Let_def)

lemma settings_tag [simp]: "settings (tag w name) = settings w"
  by (simp add: tag_def)

lemma settings_variable [simp]: "settings (variable w name) = settings w"
  by (simp add: variable_def)

lemma settings_literal [simp]: "settings (literal w v) = settings w"
  by (simp add: literal_def Let_def)

lemma settings_warn_unknown_tag [simp]: "settings (warn_unknown_tag w name) = settings w"
  by (simp add: warn_unknown_tag_def split: option.splits)

lemma settings_fold:
  "(\<And>x v. settings (f x v) = settings v) \<Longrightarrow> settings (fold f xs w) = settings w"
  by (induction xs arbitrary: w) auto

lemma settings_loopvars [simp]:
  "settings (fold (\<lambda>(idx, var) w. variable (if idx \<noteq> 0 then writes w '', '' else w) var) xs w)
   = settings w"
  "settings (fold (\<lambda>(idx, var) w. variable (if 0 < idx then writes w '', '' else w) var) xs w)
   = settings w"
  by (rule settings_fold, simp split: prod.splits)+

lemma settings_dump_token_list [simp]:
  "settings (fst (dump_token_list tokens (w, vars))) = settings w"
proof -
  have "settings (fst (fold (\<lambda>tok (w, vars).
             case tok of
               Token TOKEN_TEXT contents \<Rightarrow> (writes w contents, vars)
             | Token TOKEN_VAR contents \<Rightarrow> (print_expr w contents, touch_var contents vars)
             | _ \<Rightarrow> (w, vars)) tokens st)) = settings (fst st)" for st
    by (induction tokens arbitrary: st) (auto split: prod.splits token.splits token_type.splits)
  then show ?thesis by (simp add: dump_token_list_def)
qed

text \<open>The loop depth and the two flags are settings; entering and leaving a loop cancel.\<close>

lemma settings_enter_loop [simp]: "settings (enter_loop w) = enter_loop (settings w)"
  by (simp add: settings_def enter_loop_def)

lemma settings_leave_loop [simp]: "settings (leave_loop w) = leave_loop (settings w)"
  by (simp add: settings_def leave_loop_def)

lemma leave_enter_loop [simp]: "leave_loop (enter_loop w) = w"
  by (simp add: enter_loop_def leave_loop_def)

lemma settings_autoescape_update [simp]:
  "settings (w\<lparr>autoescape := a\<rparr>) = (settings w)\<lparr>autoescape := a\<rparr>"
  by (simp add: settings_def)

lemma settings_spaceless_update [simp]:
  "settings (w\<lparr>spaceless := a\<rparr>) = (settings w)\<lparr>spaceless := a\<rparr>"
  by (simp add: settings_def)

lemma settings_restore_autoescape [simp]:
  "(settings w)\<lparr>autoescape := a, autoescape := autoescape w\<rparr> = settings w"
  by (simp add: settings_def)

lemma settings_restore_spaceless [simp]:
  "(settings w)\<lparr>spaceless := a, spaceless := spaceless w\<rparr> = settings w"
  by (simp add: settings_def)

text \<open>A loop keeps the settings when each of its steps does.\<close>

lemma for_each_settings:
  assumes "\<And>i x s s'. x \<in> set xs \<Longrightarrow> f i x s = Inr s' \<Longrightarrow> settings (g s') = settings (g s)"
  shows "for_each f i xs s = Inr s' \<Longrightarrow> settings (g s') = settings (g s)"
  using assms
proof (induction xs arbitrary: i s)
  case Nil
  then show ?case by simp
next
  case (Cons x xs)
  from Cons.prems(1) obtain s1 where s1: "f i x s = Inr s1" and rest: "for_each f (Suc i) xs s1 = Inr s'"
    by (auto simp: bnd_Inr_iff)
  have "settings (g s1) = settings (g s)"
    using Cons.prems(2) [of x i s s1] s1 by simp
  moreover have "settings (g s') = settings (g s1)"
  proof (rule Cons.IH [OF rest])
    fix j y t t'
    assume "y \<in> set xs" and "f j y t = Inr t'"
    then show "settings (g t') = settings (g t)"
      using Cons.prems(2) [of y j t t'] by simp
  qed
  ultimately show ?case by simp
qed

text \<open>The handlers that translate no child.\<close>

lemma settings_simple_handlers:
  "text_node w n = Inr w' \<Longrightarrow> settings w' = settings w"
  "variable_handler w n = Inr w' \<Longrightarrow> settings w' = settings w"
  "comment_tag w n = Inr w' \<Longrightarrow> settings w' = settings w"
  "comment_tag_debug w n = Inr w' \<Longrightarrow> settings w' = settings w"
  "operator w n = Inr w' \<Longrightarrow> settings w' = settings w"
  "template_tag w n = Inr w' \<Longrightarrow> settings w' = settings w"
  "warn_load w n = Inr w' \<Longrightarrow> settings w' = settings w"
  "get_available_languages w n = Inr w' \<Longrightarrow> settings w' = settings w"
  "get_current_language w n = Inr w' \<Longrightarrow> settings w' = settings w"
  "get_current_language_bidi w n = Inr w' \<Longrightarrow> settings w' = settings w"
  "csrf_tag w n = Inr w' \<Longrightarrow> settings w' = settings w"
  "verbatim_tag w n = Inr w' \<Longrightarrow> settings w' = settings w"
  "lorem_tag w n = Inr w' \<Longrightarrow> settings w' = settings w"
  by (auto simp: text_node_def variable_handler_def comment_tag_def comment_tag_debug_def
        operator_def template_tag_def warn_load_def get_available_languages_def
        get_current_language_def get_current_language_bidi_def csrf_tag_def verbatim_tag_def
        lorem_tag_def Let_def
      split: pyobj.splits shape.splits option.splits if_splits)


declare node.simps [simp del]
declare filters.simps [simp del]

lemma for_each_settings_writer:
  "for_each f i xs v = Inr v' \<Longrightarrow>
   (\<And>j x s s'. x \<in> set xs \<Longrightarrow> f j x s = Inr s' \<Longrightarrow> settings s' = settings s) \<Longrightarrow>
   settings v' = settings v"
  using for_each_settings [where g = "\<lambda>x. x" and f = f] by blast

lemma for_each_settings_fst:
  "for_each f i xs v = Inr v' \<Longrightarrow>
   (\<And>j x s s'. x \<in> set xs \<Longrightarrow> f j x s = Inr s' \<Longrightarrow> settings (fst s') = settings (fst s)) \<Longrightarrow>
   settings (fst v') = settings (fst v)"
  using for_each_settings [where g = fst and f = f] by blast

text \<open>
  The induction is on the size of the object. Each handler keeps the settings when the
  translations of the smaller objects do.
\<close>

lemma body_settings_step:
  assumes Hn: "\<And>m v v'. node v m = Inr v' \<Longrightarrow> size m < k \<Longrightarrow> settings v' = settings v"
    and "body w ns = Inr w'" and "size_list size ns < k"
  shows "settings w' = settings w"
proof (rule for_each_settings_writer)
  show "for_each (\<lambda>idx n w. node w n) 0 ns w = Inr w'"
    using assms(2) by (simp add: body.simps)
  fix j x s s'
  assume "x \<in> set ns" and "node s x = Inr s'"
  then show "settings s' = settings s"
    using Hn [of s x s'] mem_size_list [of x ns size] assms(3) by simp
qed

lemma settings_if_writes [simp]: "settings (if c then writes w s else w) = settings w"
  by simp

lemma for_each_settingsE:
  assumes "for_each f i xs v = Inr v'"
    and "settings v' = settings v \<Longrightarrow> R"
    and "\<And>j x s s'. x \<in> set xs \<Longrightarrow> f j x s = Inr s' \<Longrightarrow> settings s' = settings s"
  shows R
  using assms for_each_settings_writer [of f i xs v v'] by blast

lemma node_in_list_settings:
  assumes "\<And>m v v'. node v m = Inr v' \<Longrightarrow> size m < k \<Longrightarrow> settings v' = settings v"
    and "node s0 x = Inr s'" and "x \<in> set xs" and "size_list size xs < k"
  shows "settings s' = settings s0"
proof -
  from mem_size_list [OF assms(3), of size] assms(4) have "size x < k" by simp
  from assms(1) [OF assms(2) this] show ?thesis .
qed

lemma node_in_kwargs_settings:
  assumes "\<And>m v v'. node v m = Inr v' \<Longrightarrow> size m < k \<Longrightarrow> settings v' = settings v"
    and "node s0 x = Inr s'" and "(key, x) \<in> set kws"
    and "size_list (size_prod (\<lambda>_. 0) size) kws < k"
  shows "settings s' = settings s0"
proof -
  from mem_size_list [OF assms(3), of "size_prod (\<lambda>_. 0) size"] assms(4) have "size x < k" by simp
  from assms(1) [OF assms(2) this] show ?thesis .
qed

lemma bndE:
  assumes "bnd m f = Inr y"
  obtains x where "m = Inr x" and "f x = Inr y"
  using assms by (auto simp: bnd_Inr_iff)

lemma filters_settings_step:
  assumes Hn: "\<And>m v v'. node v m = Inr v' \<Longrightarrow> size m < k \<Longrightarrow> settings v' = settings v"
    and run: "filters w fs b = Inr w'"
    and sz: "size_list (size_prod (\<lambda>_. 0) (size_list size)) fs < k"
  shows "settings w' = settings w"
proof -
  note r = run [unfolded filters.simps]
  from r show ?thesis
  proof (elim bndE, goal_cases)
    case (1 p)
    note parts = 1
    have "settings (fst p) = settings (fst (w, \<not> b))"
    proof (rule for_each_settings_fst [OF parts(1)], goal_cases)
      case (1 j x s s')
      note step = 1
      obtain filter_func args where x: "x = (filter_func, args)" by (cases x)
      obtain v want_pipe where s: "s = (v, want_pipe)" by (cases s)
      from mem_size_list [OF step(1), of "size_prod (\<lambda>_. 0) (size_list size)"] x sz
      have sza: "size_list size args < k" by simp
      show ?case
      proof (cases "get_filter_name filter_func")
        case None
        with step(2) x s show ?thesis by auto
      next
        case (Some name)
        note name = Some
        show ?thesis
        proof (cases "env v")
          case None
          with step(2) x s name show ?thesis by simp
        next
          case (Some e)
          note e = Some
          define v0 where
            "v0 = writes (if \<not> want_pipe
                          then (if name \<notin> set (env_filters e)
                                then warn v (''Filter '' @ name @ '' probably doesn'' @ [squote]
                                             @ ''t exist in Jinja'') None
                                else v)
                          else writes (if name \<notin> set (env_filters e)
                                       then warn v (''Filter '' @ name @ '' probably doesn''
                                                    @ [squote] @ ''t exist in Jinja'') None
                                       else v) ''|'') name"
          have v0: "settings v0 = settings v"
            by (simp add: v0_def)
          show ?thesis
          proof (cases "args = []")
            case True
            with step(2) x s name e have "s' = (v0, True)"
              by (auto simp: Let_def v0_def)
            with v0 s show ?thesis by simp
          next
            case False
            with step(2) x s name e have
              "\<exists>v1. for_each
                      (\<lambda>idx a w.
                         case a of
                           VarArg v \<Rightarrow> node (if 0 < idx then writes w '', '' else w) v
                         | ConstArg v \<Rightarrow> Inr (literal (if 0 < idx then writes w '', '' else w) v))
                      0 args (writes v0 ''('') = Inr v1
                 \<and> s' = (writes v1 '')'', True)"
              by (auto simp: Let_def bnd_Inr_iff v0_def)
            then obtain v1 where
              fe: "for_each
                      (\<lambda>idx a w.
                         case a of
                           VarArg v \<Rightarrow> node (if 0 < idx then writes w '', '' else w) v
                         | ConstArg v \<Rightarrow> Inr (literal (if 0 < idx then writes w '', '' else w) v))
                      0 args (writes v0 ''('') = Inr v1"
              and s': "s' = (writes v1 '')'', True)"
              by blast
            have "settings v1 = settings (writes v0 ''('')"
            proof (rule for_each_settings_writer [OF fe], goal_cases)
              case (1 i a t t')
              note arg = 1
              from mem_size_list [OF arg(1), of size] sza have sz_a: "size a < k" by simp
              show ?case
              proof (cases a)
                case (VarArg m)
                with arg(2) have st: "node (if 0 < i then writes t '', '' else t) m = Inr t'"
                  by simp
                from sz_a VarArg have "size m < k" by simp
                from Hn [OF st this] show ?thesis by simp
              next
                case (ConstArg c)
                with arg(2) show ?thesis by auto
              qed
            qed
            with v0 s s' show ?thesis by simp
          qed
        qed
      qed
    qed
    with parts(2) show ?case by (cases p) auto
  qed
qed

lemma run_settings_H_variable_node:
  assumes Hn: "\<And>m v v'. node v m = Inr v' \<Longrightarrow> size m < size n \<Longrightarrow> settings v' = settings v"
    and Hb: "\<And>ns v v'. body v ns = Inr v' \<Longrightarrow> size_list size ns < size n \<Longrightarrow> settings v' = settings v"
    and Hf: "\<And>fs v v' b. filters v fs b = Inr v' \<Longrightarrow>
               size_list (size_prod (\<lambda>_. 0) (size_list size)) fs < size n \<Longrightarrow> settings v' = settings v"
    and run: "run H_variable_node w n = Inr w'"
  shows "settings w' = settings w"
proof (cases n)
  case (Obj src sh)
  show ?thesis
  proof (cases sh)
    case (VariableNode fe)
    with run Obj show ?thesis
      by (auto simp: bnd_Inr_iff Let_def split: if_splits option.splits pyobj.splits shape.splits
            dest!: Hn Hb Hf)
  qed (use run Obj in \<open>simp_all add: Let_def\<close>)
qed

lemma run_settings_H_filter_expression:
  assumes Hn: "\<And>m v v'. node v m = Inr v' \<Longrightarrow> size m < size n \<Longrightarrow> settings v' = settings v"
    and Hb: "\<And>ns v v'. body v ns = Inr v' \<Longrightarrow> size_list size ns < size n \<Longrightarrow> settings v' = settings v"
    and Hf: "\<And>fs v v' b. filters v fs b = Inr v' \<Longrightarrow>
               size_list (size_prod (\<lambda>_. 0) (size_list size)) fs < size n \<Longrightarrow> settings v' = settings v"
    and run: "run H_filter_expression w n = Inr w'"
  shows "settings w' = settings w"
proof (cases n)
  case (Obj src sh)
  show ?thesis
  proof (cases sh)
    case (FilterExpression v fs)
    with run Obj show ?thesis
      by (auto simp: bnd_Inr_iff Let_def split: if_splits option.splits dest!: Hn Hb Hf)
  qed (use run Obj in \<open>simp_all add: Let_def\<close>)
qed

lemma run_settings_H_for_loop:
  assumes Hn: "\<And>m v v'. node v m = Inr v' \<Longrightarrow> size m < size n \<Longrightarrow> settings v' = settings v"
    and Hb: "\<And>ns v v'. body v ns = Inr v' \<Longrightarrow> size_list size ns < size n \<Longrightarrow> settings v' = settings v"
    and Hf: "\<And>fs v v' b. filters v fs b = Inr v' \<Longrightarrow>
               size_list (size_prod (\<lambda>_. 0) (size_list size)) fs < size n \<Longrightarrow> settings v' = settings v"
    and run: "run H_for_loop w n = Inr w'"
  shows "settings w' = settings w"
proof (cases n)
  case (Obj src sh)
  show ?thesis
  proof (cases sh)
    case (ForNode loopvars is_reversed sequence nodelist_loop nodelist_empty)
    with run Obj show ?thesis
      by (auto simp: bnd_Inr_iff Let_def split: if_splits option.splits dest!: Hn Hb Hf)
  qed (use run Obj in \<open>simp_all add: Let_def\<close>)
qed

lemma run_settings_H_if_condition:
  assumes Hn: "\<And>m v v'. node v m = Inr v' \<Longrightarrow> size m < size n \<Longrightarrow> settings v' = settings v"
    and Hb: "\<And>ns v v'. body v ns = Inr v' \<Longrightarrow> size_list size ns < size n \<Longrightarrow> settings v' = settings v"
    and Hf: "\<And>fs v v' b. filters v fs b = Inr v' \<Longrightarrow>
               size_list (size_prod (\<lambda>_. 0) (size_list size)) fs < size n \<Longrightarrow> settings v' = settings v"
    and run: "run H_if_condition w n = Inr w'"
  shows "settings w' = settings w"
proof (cases n)
  case (Obj src sh)
  show ?thesis
  proof (cases sh)
    case (IfNode conditions_nodelists)
    from run Obj IfNode obtain w1 where
      s1: "for_each
             (\<lambda>x (condition, nodelist) w.
                bnd (case condition of
                       Some c \<Rightarrow>
                         (case if_condition_to_bits c of
                            Inl e \<Rightarrow> Inl e
                          | Inr condition_bits \<Rightarrow>
                              for_each (\<lambda>idx b w. node (writes w '' '') b) 0 condition_bits
                                (if x = 0 then writes (start_block w) ''if''
                                 else if condition = None then writes (start_block w) ''else''
                                 else writes (start_block w) ''elif''))
                     | None \<Rightarrow>
                         Inr (if x = 0 then writes (start_block w) ''if''
                              else if condition = None then writes (start_block w) ''else''
                              else writes (start_block w) ''elif''))
                  (\<lambda>w. body (end_block w) nodelist))
             0 conditions_nodelists w = Inr w1"
      and s2: "w' = tag w1 ''endif''"
      by (auto simp: bnd_Inr_iff Let_def)
    have "settings w1 = settings w"
    proof (rule for_each_settings_writer [OF s1], goal_cases)
      case (1 j x s s')
      note step = 1
      obtain condition nodelist where x: "x = (condition, nodelist)" by (cases x)
      from mem_size_list [OF step(1), of "size_prod (size_option size) (size_list size)"] x Obj IfNode
      have sz: "size_option size condition + size_list size nodelist < size n"
        by simp
      show ?case
      proof (cases condition)
        case None
        with step(2) x have "\<exists>v. body v nodelist = Inr s' \<and> settings v = settings s"
          by (auto split: if_splits)
        then obtain v where b1: "body v nodelist = Inr s'" and v: "settings v = settings s"
          by blast
        from Hb [OF b1] sz v show ?thesis by simp
      next
        case (Some c)
        define s0 where "s0 = (if j = 0 then writes (start_block s) ''if''
                               else writes (start_block s) ''elif'')"
        have s0: "settings s0 = settings s"
          by (simp add: s0_def)
        from step(2) x Some have
          "\<exists>bits s1. for_each (\<lambda>idx b w. node (writes w '' '') b) 0 bits s0 = Inr s1
             \<and> if_condition_to_bits c = Inr bits
             \<and> body (end_block s1) nodelist = Inr s'"
          by (cases "j = 0") (auto simp: bnd_Inr_iff s0_def split: sum.splits)
        then obtain bits s1 where
          fe: "for_each (\<lambda>idx b w. node (writes w '' '') b) 0 bits s0 = Inr s1"
          and bits: "if_condition_to_bits c = Inr bits"
          and b1: "body (end_block s1) nodelist = Inr s'"
          by blast
        have "settings s1 = settings s0"
        proof (rule for_each_settings_writer [OF fe], goal_cases)
          case (1 i b t t')
          from size_bits [OF bits 1(1)] sz Some have "size b < size n" by simp
          from Hn [OF 1(2) this] show ?case by simp
        qed
        moreover have "settings s' = settings s1"
          using Hb [OF b1] sz by simp
        ultimately show ?thesis using s0 by simp
      qed
    qed
    with s2 show ?thesis by simp
  qed (use run Obj in \<open>simp_all add: Let_def\<close>)
qed

lemma run_settings_H_if_equal:
  assumes Hn: "\<And>m v v'. node v m = Inr v' \<Longrightarrow> size m < size n \<Longrightarrow> settings v' = settings v"
    and Hb: "\<And>ns v v'. body v ns = Inr v' \<Longrightarrow> size_list size ns < size n \<Longrightarrow> settings v' = settings v"
    and Hf: "\<And>fs v v' b. filters v fs b = Inr v' \<Longrightarrow>
               size_list (size_prod (\<lambda>_. 0) (size_list size)) fs < size n \<Longrightarrow> settings v' = settings v"
    and run: "run H_if_equal w n = Inr w'"
  shows "settings w' = settings w"
proof (cases n)
  case (Obj src sh)
  show ?thesis
  proof (cases sh)
    case (IfEqualNode var1 var2 nodelist_true nodelist_false negate)
    from run Obj IfEqualNode obtain w1 w2 w3 w4 where
      s1: "node (writes (start_block w) ''if '') var1 = Inr w1"
      and s2: "node (if negate then writes w1 '' != '' else writes w1 '' == '') var2 = Inr w2"
      and s3: "body (end_block w2) nodelist_true = Inr w3"
      and s4: "(if nodelist_false \<noteq> [] then body (tag w3 ''else'') nodelist_false else Inr w3) = Inr w4"
      and s5: "w' = tag w4 ''endif''"
      by (auto simp: bnd_Inr_iff Let_def)
    have "settings w1 = settings w"
      using Hn [OF s1] Obj IfEqualNode by simp
    moreover have "settings w2 = settings w1"
      using Hn [OF s2] Obj IfEqualNode by simp
    moreover have "settings w3 = settings w2"
      using Hb [OF s3] Obj IfEqualNode by simp
    moreover have "settings w4 = settings w3"
    proof (cases "nodelist_false = []")
      case True
      with s4 show ?thesis by simp
    next
      case False
      with s4 have "body (tag w3 ''else'') nodelist_false = Inr w4" by simp
      from Hb [OF this] Obj IfEqualNode show ?thesis by simp
    qed
    ultimately show ?thesis using s5 by simp
  qed (use run Obj in \<open>simp_all add: Let_def\<close>)
qed

lemma run_settings_H_block:
  assumes Hn: "\<And>m v v'. node v m = Inr v' \<Longrightarrow> size m < size n \<Longrightarrow> settings v' = settings v"
    and Hb: "\<And>ns v v'. body v ns = Inr v' \<Longrightarrow> size_list size ns < size n \<Longrightarrow> settings v' = settings v"
    and Hf: "\<And>fs v v' b. filters v fs b = Inr v' \<Longrightarrow>
               size_list (size_prod (\<lambda>_. 0) (size_list size)) fs < size n \<Longrightarrow> settings v' = settings v"
    and run: "run H_block w n = Inr w'"
  shows "settings w' = settings w"
proof (cases n)
  case (Obj src sh)
  show ?thesis
  proof (cases sh)
    case (BlockNode name nodelist parent)
    from run Obj BlockNode obtain src' name' nodelist' parent' w1 where
      root: "block_root n = Inr (Obj src' (BlockNode name' nodelist' parent'))"
      and s1: "body (tag w (''block '' @ rstrip_chars ''_'' (replace_char CHR ''-'' CHR ''_'' name))) nodelist' = Inr w1"
      and s2: "w' = tag w1 ''endblock''"
      by (auto simp: bnd_Inr_iff Let_def simp del: block_root.simps
            split: sum.splits pyobj.splits shape.splits)
    from size_block_root [OF root] have "size_list size nodelist' < size n" by simp
    from Hb [OF s1 this] s2 show ?thesis by simp
  qed (use run Obj in \<open>simp_all add: Let_def\<close>)
qed

lemma run_settings_H_extends:
  assumes Hn: "\<And>m v v'. node v m = Inr v' \<Longrightarrow> size m < size n \<Longrightarrow> settings v' = settings v"
    and Hb: "\<And>ns v v'. body v ns = Inr v' \<Longrightarrow> size_list size ns < size n \<Longrightarrow> settings v' = settings v"
    and Hf: "\<And>fs v v' b. filters v fs b = Inr v' \<Longrightarrow>
               size_list (size_prod (\<lambda>_. 0) (size_list size)) fs < size n \<Longrightarrow> settings v' = settings v"
    and run: "run H_extends w n = Inr w'"
  shows "settings w' = settings w"
proof (cases n)
  case (Obj src sh)
  show ?thesis
  proof (cases sh)
    case (ExtendsNode parent_name nodelist)
    with run Obj show ?thesis
      by (auto simp: bnd_Inr_iff Let_def split: if_splits option.splits dest!: Hn Hb Hf)
  qed (use run Obj in \<open>simp_all add: Let_def\<close>)
qed

lemma run_settings_H_include:
  assumes Hn: "\<And>m v v'. node v m = Inr v' \<Longrightarrow> size m < size n \<Longrightarrow> settings v' = settings v"
    and Hb: "\<And>ns v v'. body v ns = Inr v' \<Longrightarrow> size_list size ns < size n \<Longrightarrow> settings v' = settings v"
    and Hf: "\<And>fs v v' b. filters v fs b = Inr v' \<Longrightarrow>
               size_list (size_prod (\<lambda>_. 0) (size_list size)) fs < size n \<Longrightarrow> settings v' = settings v"
    and run: "run H_include w n = Inr w'"
  shows "settings w' = settings w"
proof (cases n)
  case (Obj src sh)
  show ?thesis
  proof (cases sh)
    case (IncludeNode template)
    with run Obj show ?thesis
      by (auto simp: bnd_Inr_iff Let_def split: if_splits option.splits dest!: Hn Hb Hf)
  qed (use run Obj in \<open>simp_all add: Let_def\<close>)
qed

lemma run_settings_H_cycle:
  assumes Hn: "\<And>m v v'. node v m = Inr v' \<Longrightarrow> size m < size n \<Longrightarrow> settings v' = settings v"
    and Hb: "\<And>ns v v'. body v ns = Inr v' \<Longrightarrow> size_list size ns < size n \<Longrightarrow> settings v' = settings v"
    and Hf: "\<And>fs v v' b. filters v fs b = Inr v' \<Longrightarrow>
               size_list (size_prod (\<lambda>_. 0) (size_list size)) fs < size n \<Longrightarrow> settings v' = settings v"
    and run: "run H_cycle w n = Inr w'"
  shows "settings w' = settings w"
proof (cases n)
  case (Obj src sh)
  show ?thesis
  proof (cases sh)
    case (CycleNode it cyclevars variable_name)
    show ?thesis
    proof (cases "in_loop w")
      case False
      with run show ?thesis by auto
    next
      case True
      define w0 where "w0 = writes (case variable_name of
                                      Some name \<Rightarrow> writes (start_block w) (''set '' @ name @ '' = '')
                                    | None \<Rightarrow> start_variable w) ''loop.cycle(''"
      have w0: "settings w0 = settings w"
        by (simp add: w0_def split: option.splits)
      note r = run [unfolded Obj CycleNode run.simps pyobj.case shape.case Let_def
                      eqTrueI [OF True] not_True_eq_False if_False]
      from r have "\<exists>w1. w' = (case variable_name of
                                     Some name \<Rightarrow> end_block (writes w1 '')'')
                                   | None \<Rightarrow> end_variable (writes w1 '')'') False)
                          \<and> settings w1 = settings w0"
      proof (elim bndE, goal_cases)
        case (1 w1)
        note parts = 1
        have "settings w1 = settings w0"
          unfolding w0_def
        proof (rule for_each_settings_writer [OF parts(1)], goal_cases)
          case (1 j x s s')
          note step = 1
          from in_set_dropD [OF step(1)] mem_size_list [of x cyclevars size] Obj CycleNode
          have sz: "size x < size n" by simp
          show ?case
          proof (cases x)
            case (Made var)
            with step(2) have
              "\<exists>s0. node s0 var = Inr s' \<and> settings s0 = settings s"
              by (cases "j = 0") auto
            then obtain s0 where st: "node s0 var = Inr s'" and s0: "settings s0 = settings s"
              by blast
            from sz Made have "size var < size n" by simp
            from Hn [OF st this] s0 show ?thesis by simp
          next
            case (Raises e)
            with step(2) show ?thesis by simp
          qed
        qed
        with parts(2) show ?case by (auto simp: w0_def)
      qed
      with w0 show ?thesis by (auto split: option.splits)
    qed
  qed (use run Obj in \<open>auto split: if_splits\<close>)
qed

lemma run_settings_H_filter:
  assumes Hn: "\<And>m v v'. node v m = Inr v' \<Longrightarrow> size m < size n \<Longrightarrow> settings v' = settings v"
    and Hb: "\<And>ns v v'. body v ns = Inr v' \<Longrightarrow> size_list size ns < size n \<Longrightarrow> settings v' = settings v"
    and Hf: "\<And>fs v v' b. filters v fs b = Inr v' \<Longrightarrow>
               size_list (size_prod (\<lambda>_. 0) (size_list size)) fs < size n \<Longrightarrow> settings v' = settings v"
    and run: "run H_filter w n = Inr w'"
  shows "settings w' = settings w"
proof (cases n)
  case (Obj src sh)
  show ?thesis
  proof (cases sh)
    case (FilterNode filter_expr nodelist)
    with run Obj show ?thesis
      by (auto simp: bnd_Inr_iff Let_def split: if_splits option.splits pyobj.splits shape.splits
            dest!: Hn Hb Hf)
  qed (use run Obj in \<open>simp_all add: Let_def\<close>)
qed

lemma run_settings_H_autoescape_control:
  assumes Hn: "\<And>m v v'. node v m = Inr v' \<Longrightarrow> size m < size n \<Longrightarrow> settings v' = settings v"
    and Hb: "\<And>ns v v'. body v ns = Inr v' \<Longrightarrow> size_list size ns < size n \<Longrightarrow> settings v' = settings v"
    and Hf: "\<And>fs v v' b. filters v fs b = Inr v' \<Longrightarrow>
               size_list (size_prod (\<lambda>_. 0) (size_list size)) fs < size n \<Longrightarrow> settings v' = settings v"
    and run: "run H_autoescape_control w n = Inr w'"
  shows "settings w' = settings w"
proof (cases n)
  case (Obj src sh)
  show ?thesis
  proof (cases sh)
    case (AutoEscapeControlNode setting nodelist)
    from run Obj AutoEscapeControlNode obtain w1 where
      s1: "body (w\<lparr>autoescape := setting\<rparr>) nodelist = Inr w1"
      and s2: "w' = w1\<lparr>autoescape := autoescape w\<rparr>"
      by (auto simp: bnd_Inr_iff Let_def)
    have "settings w1 = (settings w)\<lparr>autoescape := setting\<rparr>"
      using Hb [OF s1] Obj AutoEscapeControlNode by simp
    with s2 show ?thesis by simp
  qed (use run Obj in \<open>simp_all add: Let_def\<close>)
qed

lemma run_settings_H_spaceless:
  assumes Hn: "\<And>m v v'. node v m = Inr v' \<Longrightarrow> size m < size n \<Longrightarrow> settings v' = settings v"
    and Hb: "\<And>ns v v'. body v ns = Inr v' \<Longrightarrow> size_list size ns < size n \<Longrightarrow> settings v' = settings v"
    and Hf: "\<And>fs v v' b. filters v fs b = Inr v' \<Longrightarrow>
               size_list (size_prod (\<lambda>_. 0) (size_list size)) fs < size n \<Longrightarrow> settings v' = settings v"
    and run: "run H_spaceless w n = Inr w'"
  shows "settings w' = settings w"
proof (cases n)
  case (Obj src sh)
  show ?thesis
  proof (cases sh)
    case (SpacelessNode nodelist)
    from run Obj SpacelessNode obtain w1 where
      s1: "body (warn (w\<lparr>spaceless := True\<rparr>) ''entering spaceless mode with different semantics'' (Some n))
             (strip_nodelist nodelist) = Inr w1"
      and s2: "w' = w1\<lparr>spaceless := spaceless w\<rparr>"
      by (auto simp: bnd_Inr_iff Let_def)
    have "settings w1 = (settings w)\<lparr>spaceless := True\<rparr>"
      using Hb [OF s1] Obj SpacelessNode by (simp add: size_strip_nodelist)
    with s2 show ?thesis by simp
  qed (use run Obj in \<open>simp_all add: Let_def\<close>)
qed

lemma run_settings_H_url_tag:
  assumes Hn: "\<And>m v v'. node v m = Inr v' \<Longrightarrow> size m < size n \<Longrightarrow> settings v' = settings v"
    and Hb: "\<And>ns v v'. body v ns = Inr v' \<Longrightarrow> size_list size ns < size n \<Longrightarrow> settings v' = settings v"
    and Hf: "\<And>fs v v' b. filters v fs b = Inr v' \<Longrightarrow>
               size_list (size_prod (\<lambda>_. 0) (size_list size)) fs < size n \<Longrightarrow> settings v' = settings v"
    and run: "run H_url_tag w n = Inr w'"
  shows "settings w' = settings w"
proof (cases n)
  case (Obj src sh)
  show ?thesis
  proof (cases sh)
    case (URLNode view_name args kwargs asvar)
    define w0 where "w0 = writes (if truthy asvar
                                  then writes (start_block w) (''set '' @ str_opt asvar @ '' = '')
                                  else start_variable w) ''url(''"
    have w0: "settings w0 = settings w"
      by (simp add: w0_def)
    from run Obj URLNode obtain w1 w2 w3 where
      s1: "node w0 view_name = Inr w1"
      and s2: "for_each (\<lambda>idx arg w. node (writes w '', '') arg) 0 args w1 = Inr w2"
      and s3: "for_each (\<lambda>idx (key, arg) w. node (writes w ('', '' @ key @ ''='')) arg)
                 0 kwargs w2 = Inr w3"
      and s4: "w' = (if truthy asvar then end_block (writes w3 '')'')
                     else end_variable (writes w3 '')'') False)"
      by (auto simp: bnd_Inr_iff Let_def w0_def)
    have "settings w1 = settings w0"
      using Hn [OF s1] Obj URLNode by simp
    moreover have "settings w2 = settings w1"
    proof (rule for_each_settings_writer [OF s2], goal_cases)
      case (1 j x s s')
      from node_in_list_settings [OF Hn 1(2) 1(1)] Obj URLNode show ?case by simp
    qed
    moreover have "settings w3 = settings w2"
    proof (rule for_each_settings_writer [OF s3], goal_cases)
      case (1 j x s s')
      obtain key arg where x: "x = (key, arg)" by (cases x)
      from 1(2) x have st: "node (writes s ('', '' @ key @ ''='')) arg = Inr s'" by simp
      from 1(1) x have mem: "(key, arg) \<in> set kwargs" by simp
      from node_in_kwargs_settings [OF Hn st mem] Obj URLNode show ?case by simp
    qed
    ultimately show ?thesis using w0 s4 by simp
  qed (use run Obj in \<open>simp_all add: Let_def\<close>)
qed

lemma run_settings_H_width_ratio:
  assumes Hn: "\<And>m v v'. node v m = Inr v' \<Longrightarrow> size m < size n \<Longrightarrow> settings v' = settings v"
    and Hb: "\<And>ns v v'. body v ns = Inr v' \<Longrightarrow> size_list size ns < size n \<Longrightarrow> settings v' = settings v"
    and Hf: "\<And>fs v v' b. filters v fs b = Inr v' \<Longrightarrow>
               size_list (size_prod (\<lambda>_. 0) (size_list size)) fs < size n \<Longrightarrow> settings v' = settings v"
    and run: "run H_width_ratio w n = Inr w'"
  shows "settings w' = settings w"
proof (cases n)
  case (Obj src sh)
  show ?thesis
  proof (cases sh)
    case (WidthRatioNode val_expr max_expr max_width)
    with run Obj show ?thesis
      by (auto simp: bnd_Inr_iff Let_def split: if_splits option.splits dest!: Hn Hb Hf)
  qed (use run Obj in \<open>simp_all add: Let_def\<close>)
qed

lemma run_settings_H_with_block:
  assumes Hn: "\<And>m v v'. node v m = Inr v' \<Longrightarrow> size m < size n \<Longrightarrow> settings v' = settings v"
    and Hb: "\<And>ns v v'. body v ns = Inr v' \<Longrightarrow> size_list size ns < size n \<Longrightarrow> settings v' = settings v"
    and Hf: "\<And>fs v v' b. filters v fs b = Inr v' \<Longrightarrow>
               size_list (size_prod (\<lambda>_. 0) (size_list size)) fs < size n \<Longrightarrow> settings v' = settings v"
    and run: "run H_with_block w n = Inr w'"
  shows "settings w' = settings w"
proof (cases n)
  case (Obj src sh)
  show ?thesis
  proof (cases sh)
    case (WithNode extra_context nodelist)
    from run Obj WithNode obtain w1 w2 where
      s1: "for_each (\<lambda>x (key, v) w.
                       node (writes (writes (if x \<noteq> 0 then writes w '', '' else w) key) ''='') v)
             0 extra_context (writes (start_block w) ''with '') = Inr w1"
      and s2: "body (end_block w1) nodelist = Inr w2"
      and s3: "w' = tag w2 ''endwith''"
      by (auto simp: bnd_Inr_iff Let_def)
    have "settings w1 = settings (writes (start_block w) ''with '')"
    proof (rule for_each_settings_writer [OF s1], goal_cases)
      case (1 j x s s')
      obtain key v where x: "x = (key, v)" by (cases x)
      from 1(2) x have st:
        "node (writes (writes (if j \<noteq> 0 then writes s '', '' else s) key) ''='') v = Inr s'"
        by simp
      from 1(1) x have mem: "(key, v) \<in> set extra_context" by simp
      from node_in_kwargs_settings [OF Hn st mem] Obj WithNode show ?case by simp
    qed
    moreover have "settings w2 = settings w1"
      using Hb [OF s2] Obj WithNode by simp
    ultimately show ?thesis using s3 by simp
  qed (use run Obj in \<open>simp_all add: Let_def\<close>)
qed

lemma run_settings_H_regroup:
  assumes Hn: "\<And>m v v'. node v m = Inr v' \<Longrightarrow> size m < size n \<Longrightarrow> settings v' = settings v"
    and Hb: "\<And>ns v v'. body v ns = Inr v' \<Longrightarrow> size_list size ns < size n \<Longrightarrow> settings v' = settings v"
    and Hf: "\<And>fs v v' b. filters v fs b = Inr v' \<Longrightarrow>
               size_list (size_prod (\<lambda>_. 0) (size_list size)) fs < size n \<Longrightarrow> settings v' = settings v"
    and run: "run H_regroup w n = Inr w'"
  shows "settings w' = settings w"
proof (cases n)
  case (Obj src sh)
  show ?thesis
  proof (cases sh)
    case (RegroupNode target expression var_name)
    with run Obj show ?thesis
      by (auto simp: bnd_Inr_iff Let_def split: if_splits option.splits pyobj.splits shape.splits
            dest!: Hn Hb Hf)
  qed (use run Obj in \<open>simp_all add: Let_def\<close>)
qed

lemma run_settings_H_simple_gettext:
  assumes Hn: "\<And>m v v'. node v m = Inr v' \<Longrightarrow> size m < size n \<Longrightarrow> settings v' = settings v"
    and Hb: "\<And>ns v v'. body v ns = Inr v' \<Longrightarrow> size_list size ns < size n \<Longrightarrow> settings v' = settings v"
    and Hf: "\<And>fs v v' b. filters v fs b = Inr v' \<Longrightarrow>
               size_list (size_prod (\<lambda>_. 0) (size_list size)) fs < size n \<Longrightarrow> settings v' = settings v"
    and run: "run H_simple_gettext w n = Inr w'"
  shows "settings w' = settings w"
proof (cases n)
  case (Obj src sh)
  show ?thesis
  proof (cases sh)
    case (TranslateNode v)
    with run Obj show ?thesis
      by (auto simp: bnd_Inr_iff Let_def split: if_splits option.splits dest!: Hn Hb Hf)
  qed (use run Obj in \<open>simp_all add: Let_def\<close>)
qed

lemma run_settings_H_translate_block:
  assumes Hn: "\<And>m v v'. node v m = Inr v' \<Longrightarrow> size m < size n \<Longrightarrow> settings v' = settings v"
    and Hb: "\<And>ns v v'. body v ns = Inr v' \<Longrightarrow> size_list size ns < size n \<Longrightarrow> settings v' = settings v"
    and Hf: "\<And>fs v v' b. filters v fs b = Inr v' \<Longrightarrow>
               size_list (size_prod (\<lambda>_. 0) (size_list size)) fs < size n \<Longrightarrow> settings v' = settings v"
    and run: "run H_translate_block w n = Inr w'"
  shows "settings w' = settings w"
proof (cases n)
  case (Obj src sh)
  show ?thesis
  proof (cases sh)
    case (BlockTranslateNode extra_context singular plural countervar counter)
    note r = run [unfolded Obj BlockTranslateNode run.simps pyobj.case shape.case Let_def]
    from r show ?thesis
    proof (elim bndE, goal_cases)
      case (1 w1 p)
      note parts = 1
      have w1: "settings w1 = settings w"
      proof -
        have "settings w1
              = settings (writes (start_block (warn w
                  ''i18n system used, make sure to install translations''
                  (Some (Obj src (BlockTranslateNode extra_context singular plural countervar
                     counter))))) ''trans'')"
        proof (rule for_each_settings_writer [OF parts(1)], goal_cases)
          case (1 j x s s')
          note step = 1
          obtain key var where x: "x = (key, var)" by (cases x)
          obtain a sh' where var: "var = Obj a sh'" by (cases var)
          show ?case
          proof (cases sh')
            case (VariableNode fe)
            with step(2) x var have "\<exists>s0. node s0 fe = Inr s' \<and> settings s0 = settings s"
              by auto
            then obtain s0 where st: "node s0 fe = Inr s'" and s0: "settings s0 = settings s"
              by blast
            from mem_size_list [OF step(1), of "size_prod (\<lambda>_. 0) size"] x var VariableNode Obj
              BlockTranslateNode
            have "size fe < size n" by simp
            from Hn [OF st this] s0 show ?thesis by simp
          qed (use step(2) x var in simp_all)
        qed
        then show ?thesis by simp
      qed
      obtain w2 first_var variables where p: "p = (w2, first_var, variables)"
        by (cases p) auto
      have w2: "settings w2 = settings w1"
        using parts(2) p Obj BlockTranslateNode
        by (auto simp: bnd_Inr_iff split: option.splits if_splits dest!: Hn)
      obtain w3 first_var3 variables3 where
        d1: "dump_token_list singular (end_block w2, first_var, variables)
             = (w3, first_var3, variables3)"
        by (cases "dump_token_list singular (end_block w2, first_var, variables)") auto
      have w3: "settings w3 = settings w2"
        using settings_dump_token_list [of singular "end_block w2" "(first_var, variables)"] d1
        by simp
      have "settings w' = settings w3"
      proof (cases "plural \<noteq> [] \<and> truthy countervar \<and> counter \<noteq> None")
        case False
        with parts(3) p d1 show ?thesis by auto
      next
        case True
        show ?thesis
        proof (cases first_var3)
          case Nil
          with parts(3) p d1 True show ?thesis by simp
        next
          case (Cons first rest)
          define w4 where
            "w4 = end_block (if str_opt countervar \<noteq> first
                             then writes (writes (start_block w3) ''pluralize'')
                                    ('' '' @ str_opt countervar)
                             else writes (start_block w3) ''pluralize'')"
          have w4: "settings w4 = settings w3"
            by (simp add: w4_def)
          obtain w5 first_var5 variables5 where
            d2: "dump_token_list plural (w4, first_var3, variables3)
                 = (w5, first_var5, variables5)"
            by (cases "dump_token_list plural (w4, first_var3, variables3)") auto
          have w5: "settings w5 = settings w4"
            using settings_dump_token_list [of plural w4 "(first_var3, variables3)"] d2
            by simp
          from parts(3) p d1 True Cons d2 have "w' = tag w5 ''endtrans''"
            by (auto simp: w4_def split: if_splits)
          with w5 w4 show ?thesis by simp
        qed
      qed
      with w3 w2 w1 show ?case by simp
    qed
  qed (use run Obj in \<open>simp_all add: Let_def\<close>)
qed

lemma run_settings_H_simple_tag:
  assumes Hn: "\<And>m v v'. node v m = Inr v' \<Longrightarrow> size m < size n \<Longrightarrow> settings v' = settings v"
    and Hb: "\<And>ns v v'. body v ns = Inr v' \<Longrightarrow> size_list size ns < size n \<Longrightarrow> settings v' = settings v"
    and Hf: "\<And>fs v v' b. filters v fs b = Inr v' \<Longrightarrow>
               size_list (size_prod (\<lambda>_. 0) (size_list size)) fs < size n \<Longrightarrow> settings v' = settings v"
    and run: "run H_simple_tag w n = Inr w'"
  shows "settings w' = settings w"
proof (cases n)
  case (Obj src sh)
  show ?thesis
  proof (cases sh)
    case (SimpleNode func args kwargs target_var)
    from run Obj SimpleNode obtain name w1 w2 where
      s0: "get_simple_tag_name w n = Inr name"
      and s1: "for_each (\<lambda>idx var w. node (if idx \<noteq> 0 then writes w '', '' else w) var) 0 args
                 (writes (if truthy target_var
                          then writes (start_block (warn_unknown_tag w name))
                                 (''set '' @ str_opt target_var @ ''='' @ str_opt name)
                          else writes (start_variable (warn_unknown_tag w name)) (str_opt name))
                    ''('')
               = Inr w1"
      and s2: "for_each (\<lambda>idx (key, val) w.
                           node (writes (if args \<noteq> [] \<or> idx \<noteq> 0 then writes w '', '' else w)
                                   (key @ ''='')) val)
                 0 kwargs w1 = Inr w2"
      and s3: "w' = (if truthy target_var then end_block (writes w2 '')'')
                     else end_variable (writes w2 '')'') False)"
      by (auto simp: bnd_Inr_iff Let_def split: sum.splits)
    have "settings w1 = settings w"
    proof -
      have "settings w1
            = settings (writes (if truthy target_var
                          then writes (start_block (warn_unknown_tag w name))
                                 (''set '' @ str_opt target_var @ ''='' @ str_opt name)
                          else writes (start_variable (warn_unknown_tag w name)) (str_opt name))
                    ''('')"
      proof (rule for_each_settings_writer [OF s1], goal_cases)
        case (1 j x s s')
        from node_in_list_settings [OF Hn 1(2) 1(1)] Obj SimpleNode show ?case by simp
      qed
      then show ?thesis by simp
    qed
    moreover have "settings w2 = settings w1"
    proof (rule for_each_settings_writer [OF s2], goal_cases)
      case (1 j x s s')
      obtain key val where x: "x = (key, val)" by (cases x)
      from 1(2) x have st:
        "node (writes (if args \<noteq> [] \<or> j \<noteq> 0 then writes s '', '' else s) (key @ ''='')) val = Inr s'"
        by simp
      from 1(1) x have mem: "(key, val) \<in> set kwargs" by simp
      from node_in_kwargs_settings [OF Hn st mem] Obj SimpleNode show ?case by simp
    qed
    ultimately show ?thesis using s3 by simp
  qed (use run Obj in \<open>simp_all add: Let_def split: sum.splits\<close>)
qed

lemma run_settings_H_inclusion_tag:
  assumes Hn: "\<And>m v v'. node v m = Inr v' \<Longrightarrow> size m < size n \<Longrightarrow> settings v' = settings v"
    and Hb: "\<And>ns v v'. body v ns = Inr v' \<Longrightarrow> size_list size ns < size n \<Longrightarrow> settings v' = settings v"
    and Hf: "\<And>fs v v' b. filters v fs b = Inr v' \<Longrightarrow>
               size_list (size_prod (\<lambda>_. 0) (size_list size)) fs < size n \<Longrightarrow> settings v' = settings v"
    and run: "run H_inclusion_tag w n = Inr w'"
  shows "settings w' = settings w"
proof (cases n)
  case (Obj src sh)
  show ?thesis
  proof (cases sh)
    case (InclusionNode func args kwargs)
    from run Obj InclusionNode obtain name w1 w2 where
      s0: "get_simple_tag_name w n = Inr name"
      and s1: "for_each (\<lambda>idx var w. node (if idx \<noteq> 0 then writes w '', '' else w) var) 0 args
                 (writes (writes (start_variable (warn_unknown_tag w name)) (str_opt name)) ''('')
               = Inr w1"
      and s2: "for_each (\<lambda>idx (key, val) w.
                           node (writes (if args \<noteq> [] \<or> idx \<noteq> 0 then writes w '', '' else w)
                                   (key @ ''='')) val)
                 0 kwargs w1 = Inr w2"
      and s3: "w' = end_variable (writes w2 '')'') False"
      by (auto simp: bnd_Inr_iff Let_def split: sum.splits)
    have "settings w1 = settings w"
    proof -
      have "settings w1
            = settings (writes (writes (start_variable (warn_unknown_tag w name)) (str_opt name)) ''('')"
      proof (rule for_each_settings_writer [OF s1], goal_cases)
        case (1 j x s s')
        from node_in_list_settings [OF Hn 1(2) 1(1)] Obj InclusionNode show ?case by simp
      qed
      then show ?thesis by simp
    qed
    moreover have "settings w2 = settings w1"
    proof (rule for_each_settings_writer [OF s2], goal_cases)
      case (1 j x s s')
      obtain key val where x: "x = (key, val)" by (cases x)
      from 1(2) x have st:
        "node (writes (if args \<noteq> [] \<or> j \<noteq> 0 then writes s '', '' else s) (key @ ''='')) val = Inr s'"
        by simp
      from 1(1) x have mem: "(key, val) \<in> set kwargs" by simp
      from node_in_kwargs_settings [OF Hn st mem] Obj InclusionNode show ?case by simp
    qed
    ultimately show ?thesis using s3 by simp
  qed (use run Obj in \<open>simp_all add: Let_def split: sum.splits\<close>)
qed

lemma run_settings_H_static_tag:
  assumes Hn: "\<And>m v v'. node v m = Inr v' \<Longrightarrow> size m < size n \<Longrightarrow> settings v' = settings v"
    and Hb: "\<And>ns v v'. body v ns = Inr v' \<Longrightarrow> size_list size ns < size n \<Longrightarrow> settings v' = settings v"
    and Hf: "\<And>fs v v' b. filters v fs b = Inr v' \<Longrightarrow>
               size_list (size_prod (\<lambda>_. 0) (size_list size)) fs < size n \<Longrightarrow> settings v' = settings v"
    and run: "run H_static_tag w n = Inr w'"
  shows "settings w' = settings w"
proof (cases n)
  case (Obj src sh)
  show ?thesis
  proof (cases sh)
    case (StaticNode path varname)
    with run Obj show ?thesis
      by (auto simp: bnd_Inr_iff Let_def split: if_splits option.splits dest!: Hn Hb Hf)
  qed (use run Obj in \<open>simp_all add: Let_def\<close>)
qed

text \<open>
  So every translation that returns leaves the settings of the writer as they were: it
  only adds text to the two streams.
\<close>

lemma node_settings: "node w n = Inr w' \<Longrightarrow> settings w' = settings w"
proof (induction n arbitrary: w w' rule: measure_induct_rule [where f = "size :: pyobj \<Rightarrow> nat"])
  case (less n)
  have Hn: "\<And>m v v'. node v m = Inr v' \<Longrightarrow> size m < size n \<Longrightarrow> settings v' = settings v"
    using less.IH by blast
  have Hb: "\<And>ns v v'. body v ns = Inr v' \<Longrightarrow> size_list size ns < size n
              \<Longrightarrow> settings v' = settings v"
    by (rule body_settings_step [OF Hn])
  have Hf: "\<And>fs v v' b. filters v fs b = Inr v' \<Longrightarrow>
               size_list (size_prod (\<lambda>_. 0) (size_list size)) fs < size n
               \<Longrightarrow> settings v' = settings v"
    by (rule filters_settings_step [OF Hn])
  have run: "settings v' = settings w" if r: "run h w n = Inr v'" for h v'
  proof (cases h)
    case H_text_node
    with r show ?thesis by (simp add: settings_simple_handlers)
  next
    case H_variable
    with r show ?thesis by (simp add: settings_simple_handlers)
  next
    case H_variable_node
    with r show ?thesis by (simp add: run_settings_H_variable_node [OF Hn Hb Hf])
  next
    case H_filter_expression
    with r show ?thesis by (simp add: run_settings_H_filter_expression [OF Hn Hb Hf])
  next
    case H_comment_tag
    with r show ?thesis by (simp add: settings_simple_handlers)
  next
    case H_comment_tag_debug
    with r show ?thesis by (simp add: settings_simple_handlers)
  next
    case H_for_loop
    with r show ?thesis by (simp add: run_settings_H_for_loop [OF Hn Hb Hf])
  next
    case H_if_condition
    with r show ?thesis by (simp add: run_settings_H_if_condition [OF Hn Hb Hf])
  next
    case H_operator
    with r show ?thesis by (simp add: settings_simple_handlers)
  next
    case H_if_equal
    with r show ?thesis by (simp add: run_settings_H_if_equal [OF Hn Hb Hf])
  next
    case H_block
    with r show ?thesis by (simp add: run_settings_H_block [OF Hn Hb Hf])
  next
    case H_extends
    with r show ?thesis by (simp add: run_settings_H_extends [OF Hn Hb Hf])
  next
    case H_include
    with r show ?thesis by (simp add: run_settings_H_include [OF Hn Hb Hf])
  next
    case H_cycle
    with r show ?thesis by (simp add: run_settings_H_cycle [OF Hn Hb Hf])
  next
    case H_filter
    with r show ?thesis by (simp add: run_settings_H_filter [OF Hn Hb Hf])
  next
    case H_autoescape_control
    with r show ?thesis by (simp add: run_settings_H_autoescape_control [OF Hn Hb Hf])
  next
    case H_spaceless
    with r show ?thesis by (simp add: run_settings_H_spaceless [OF Hn Hb Hf])
  next
    case H_template_tag
    with r show ?thesis by (simp add: settings_simple_handlers)
  next
    case H_url_tag
    with r show ?thesis by (simp add: run_settings_H_url_tag [OF Hn Hb Hf])
  next
    case H_width_ratio
    with r show ?thesis by (simp add: run_settings_H_width_ratio [OF Hn Hb Hf])
  next
    case H_with_block
    with r show ?thesis by (simp add: run_settings_H_with_block [OF Hn Hb Hf])
  next
    case H_regroup
    with r show ?thesis by (simp add: run_settings_H_regroup [OF Hn Hb Hf])
  next
    case H_warn_load
    with r show ?thesis by (simp add: settings_simple_handlers)
  next
    case H_get_available_languages
    with r show ?thesis by (simp add: settings_simple_handlers)
  next
    case H_get_current_language
    with r show ?thesis by (simp add: settings_simple_handlers)
  next
    case H_get_current_language_bidi
    with r show ?thesis by (simp add: settings_simple_handlers)
  next
    case H_simple_gettext
    with r show ?thesis by (simp add: run_settings_H_simple_gettext [OF Hn Hb Hf])
  next
    case H_translate_block
    with r show ?thesis by (simp add: run_settings_H_translate_block [OF Hn Hb Hf])
  next
    case H_simple_tag
    with r show ?thesis by (simp add: run_settings_H_simple_tag [OF Hn Hb Hf])
  next
    case H_inclusion_tag
    with r show ?thesis by (simp add: run_settings_H_inclusion_tag [OF Hn Hb Hf])
  next
    case H_static_tag
    with r show ?thesis by (simp add: run_settings_H_static_tag [OF Hn Hb Hf])
  next
    case H_csrf_tag
    with r show ?thesis by (simp add: settings_simple_handlers)
  next
    case H_verbatim_tag
    with r show ?thesis by (simp add: settings_simple_handlers)
  next
    case H_lorem_tag
    with r show ?thesis by (simp add: settings_simple_handlers)
  qed
  from less.prems show ?case
    by (auto simp: node.simps split: option.splits intro: run)
qed

lemma body_settings: "body w ns = Inr w' \<Longrightarrow> settings w' = settings w"
  using body_settings_step [of "Suc (size_list size ns)" w ns w'] node_settings by simp

lemma filters_settings: "filters w fs b = Inr w' \<Longrightarrow> settings w' = settings w"
  using filters_settings_step
    [of "Suc (size_list (size_prod (\<lambda>_. 0) (size_list size)) fs)" w fs b w'] node_settings
  by simp

section \<open>The loop depth\<close>

lemma settings_loop_depth: "settings a = settings b \<Longrightarrow> loop_depth a = loop_depth b"
  by (cases a, cases b) (simp add: settings_def)

lemma settings_autoescape: "settings a = settings b \<Longrightarrow> autoescape a = autoescape b"
  by (cases a, cases b) (simp add: settings_def)

lemma settings_spaceless: "settings a = settings b \<Longrightarrow> spaceless a = spaceless b"
  by (cases a, cases b) (simp add: settings_def)

lemma loop_depth_enter_loop [simp]: "loop_depth (enter_loop w) = loop_depth w + 1"
  by (simp add: enter_loop_def)

lemma loop_depth_leave_loop [simp]: "loop_depth (leave_loop w) = loop_depth w - 1"
  by (simp add: leave_loop_def)

lemma loop_depth_steps [simp]:
  "loop_depth (writes w s) = loop_depth w"
  "loop_depth (tag w name) = loop_depth w"
  "loop_depth (end_block w) = loop_depth w"
  "loop_depth (start_block w) = loop_depth w"
  using settings_loop_depth [OF settings_writes] settings_loop_depth [OF settings_tag]
    settings_loop_depth [OF settings_end_block] settings_loop_depth [OF settings_start_block]
  by blast+

text \<open>
  C8. The loop depth only changes in the handler of a loop node, which enters the loop
  before it translates the body and leaves it after. Every translation that returns,
  of any object and from any writer, returns at the loop depth it was started at. So for
  a loop node translated from a writer \<open>w\<close> of depth at least 0, with any body and any
  nesting of loops in it: the sequence is translated at the depth of \<open>w\<close>; the body is
  translated from a writer of this depth plus 1, and returns at this depth plus 1, where
  the loop is left; the \<open>else\<close> part, when there is one, is translated at the depth of \<open>w\<close>;
  and the handler returns at the depth of \<open>w\<close>, which is at least 0.
\<close>

theorem for_loop_depth_restored:
  assumes depth: "0 \<le> loop_depth w"
    and ret: "node w (Obj src (ForNode loopvars is_reversed sequence nodelist_loop nodelist_empty))
              = Inr w'"
  shows "loop_depth w' = loop_depth w \<and> 0 \<le> loop_depth w'
    \<and> (\<exists>w0 w1 w2 w3.
          node w0 sequence = Inr w1
        \<and> loop_depth w0 = loop_depth w \<and> loop_depth w1 = loop_depth w
        \<and> body (enter_loop (end_block (if is_reversed then writes w1 '')|reverse'' else w1)))
              nodelist_loop = Inr w2
        \<and> loop_depth (enter_loop (end_block (if is_reversed then writes w1 '')|reverse'' else w1)))
            = loop_depth w + 1
        \<and> loop_depth w2 = loop_depth w + 1 \<and> 0 < loop_depth w2
        \<and> (if nodelist_empty \<noteq> [] then body (tag (leave_loop w2) ''else'') nodelist_empty
            else Inr (leave_loop w2)) = Inr w3
        \<and> loop_depth (leave_loop w2) = loop_depth w \<and> loop_depth w3 = loop_depth w
        \<and> w' = tag w3 ''endfor'')
    \<and> (\<forall>v m v'. node v m = Inr v' \<longrightarrow> loop_depth v' = loop_depth v)
    \<and> (\<forall>v ms v'. body v ms = Inr v' \<longrightarrow> loop_depth v' = loop_depth v)"
proof -
  define w0 where
    "w0 = (if is_reversed
           then writes (writes (fold (\<lambda>(idx, var) w. variable (if idx \<noteq> 0 then writes w '', '' else w) var)
                                  (enumerate 0 loopvars) (writes (start_block w) ''for '')) '' in '') ''(''
           else writes (fold (\<lambda>(idx, var) w. variable (if idx \<noteq> 0 then writes w '', '' else w) var)
                          (enumerate 0 loopvars) (writes (start_block w) ''for '')) '' in '')"
  have w0: "loop_depth w0 = loop_depth w"
    by (rule settings_loop_depth) (simp add: w0_def)
  from ret have "run H_for_loop w
                   (Obj src (ForNode loopvars is_reversed sequence nodelist_loop nodelist_empty))
                 = Inr w'"
    by (simp add: node.simps)
  then have
    "\<exists>w1 w2 w3. node w0 sequence = Inr w1
       \<and> body (enter_loop (end_block (if is_reversed then writes w1 '')|reverse'' else w1)))
             nodelist_loop = Inr w2
       \<and> (if nodelist_empty \<noteq> [] then body (tag (leave_loop w2) ''else'') nodelist_empty
           else Inr (leave_loop w2)) = Inr w3
       \<and> w' = tag w3 ''endfor''"
    by (cases is_reversed; cases "nodelist_empty = []") (auto simp: bnd_Inr_iff Let_def w0_def)
  then obtain w1 w2 w3 where
    s1: "node w0 sequence = Inr w1"
    and s2: "body (enter_loop (end_block (if is_reversed then writes w1 '')|reverse'' else w1)))
               nodelist_loop = Inr w2"
    and s3: "(if nodelist_empty \<noteq> [] then body (tag (leave_loop w2) ''else'') nodelist_empty
              else Inr (leave_loop w2)) = Inr w3"
    and s4: "w' = tag w3 ''endfor''"
    by blast
  have w1: "loop_depth w1 = loop_depth w"
    using settings_loop_depth [OF node_settings [OF s1]] w0 by simp
  have w2: "loop_depth w2 = loop_depth w + 1"
    using settings_loop_depth [OF body_settings [OF s2]] w1 by (simp split: if_splits)
  have w3: "loop_depth w3 = loop_depth w"
  proof (cases "nodelist_empty = []")
    case True
    with s3 w2 show ?thesis by auto
  next
    case False
    with s3 have "body (tag (leave_loop w2) ''else'') nodelist_empty = Inr w3" by simp
    from settings_loop_depth [OF body_settings [OF this]] w2 show ?thesis by simp
  qed
  have w': "loop_depth w' = loop_depth w"
    using s4 w3 by simp
  have "loop_depth (enter_loop (end_block (if is_reversed then writes w1 '')|reverse'' else w1)))
        = loop_depth w + 1"
    using w1 by (simp split: if_splits)
  moreover have "loop_depth (leave_loop w2) = loop_depth w"
    using w2 by simp
  moreover have "0 < loop_depth w2"
    using w2 depth by simp
  moreover have "\<forall>v m v'. node v m = Inr v' \<longrightarrow> loop_depth v' = loop_depth v"
    using settings_loop_depth [OF node_settings] by blast
  moreover have "\<forall>v ms v'. body v ms = Inr v' \<longrightarrow> loop_depth v' = loop_depth v"
    using settings_loop_depth [OF body_settings] by blast
  ultimately show ?thesis
    using s1 s2 s3 s4 w0 w1 w2 w3 w' depth by (intro conjI exI [of _ w0] exI [of _ w1] exI [of _ w2] exI [of _ w3]) simp_all
qed

text \<open>
  Two nested loops with the default writer: the translation returns, at depth 0.
\<close>

theorem for_loop_depth_restored_nested:
  "0 \<le> loop_depth Writer
   \<and> node Writer
       (Obj None (ForNode [''x''] False
          (Obj None (FilterExpression (Obj None (Variable ''xs'' None False)) []))
          [Obj None (ForNode [''y''] True
             (Obj None (FilterExpression (Obj None (Variable ''x.ys'' None False)) []))
             [Obj None (TextNode ''a'')] [Obj None (TextNode ''b'')])]
          []))
     = Inr (Writer\<lparr>stream := ''{% for x in xs %}{% for y in (x.ys)|reverse %}a{% else %}b{% endfor %}{% endfor %}''\<rparr>)
   \<and> loop_depth (Writer\<lparr>stream := ''{% for x in xs %}{% for y in (x.ys)|reverse %}a{% else %}b{% endfor %}{% endfor %}''\<rparr>)
     = loop_depth Writer"
proof -
  have d: "0 \<le> loop_depth Writer"
    by (simp add: Writer_def)
  have r: "node Writer
       (Obj None (ForNode [''x''] False
          (Obj None (FilterExpression (Obj None (Variable ''xs'' None False)) []))
          [Obj None (ForNode [''y''] True
             (Obj None (FilterExpression (Obj None (Variable ''x.ys'' None False)) []))
             [Obj None (TextNode ''a'')] [Obj None (TextNode ''b'')])]
          []))
     = Inr (Writer\<lparr>stream := ''{% for x in xs %}{% for y in (x.ys)|reverse %}a{% else %}b{% endfor %}{% endfor %}''\<rparr>)"
    by (simp add: node.simps filters.simps text_node_def variable_handler_def variable_def
          writes_def translate_variable_name_def in_loop_def startswith_def Writer_def
          safe_data_def start_block_def end_block_def post_open_def pre_close_def tag_def
          enter_loop_def leave_loop_def)
  from for_loop_depth_restored [OF d r] d r show ?thesis
    by simp
qed

section \<open>The regions of autoescape and spaceless\<close>

text \<open>
  C9. The handler of an autoescape region sets the flag \<open>autoescape\<close> to the setting of the
  node, translates the content and sets the flag back; the handler of a spaceless region
  does the same with the flag \<open>spaceless\<close>, set to true. Whatever the content is, when the
  handler returns both flags have the values they had before, and the writer it leaves
  differs from the writer it was called with only by the text of the two streams and by the
  state of the iterators of the cycle nodes, which is no field of the writer.
\<close>

theorem scoped_region_restores_flags:
  "(node w (Obj src (AutoEscapeControlNode setting nodelist)) = Inr w' \<longrightarrow>
      (\<exists>w1. body (w\<lparr>autoescape := setting\<rparr>) nodelist = Inr w1 \<and> autoescape w1 = setting
            \<and> w' = w1\<lparr>autoescape := autoescape w\<rparr>)
      \<and> autoescape w' = autoescape w \<and> spaceless w' = spaceless w
      \<and> w' = w\<lparr>stream := stream w', error_stream := error_stream w', consumed := consumed w'\<rparr>)
   \<and> (node w (Obj src2 (SpacelessNode nodelist2)) = Inr w'' \<longrightarrow>
      (\<exists>w1. body (warn (w\<lparr>spaceless := True\<rparr>)
                     ''entering spaceless mode with different semantics''
                     (Some (Obj src2 (SpacelessNode nodelist2))))
                (strip_nodelist nodelist2) = Inr w1
            \<and> spaceless w1 \<and> w'' = w1\<lparr>spaceless := spaceless w\<rparr>)
      \<and> autoescape w'' = autoescape w \<and> spaceless w'' = spaceless w
      \<and> w'' = w\<lparr>stream := stream w'', error_stream := error_stream w'',
                 consumed := consumed w''\<rparr>)"
proof (intro conjI impI)
  assume ret: "node w (Obj src (AutoEscapeControlNode setting nodelist)) = Inr w'"
  then have "\<exists>w1. body (w\<lparr>autoescape := setting\<rparr>) nodelist = Inr w1
               \<and> w' = w1\<lparr>autoescape := autoescape w\<rparr>"
    by (auto simp: node.simps bnd_Inr_iff Let_def)
  then obtain w1 where b: "body (w\<lparr>autoescape := setting\<rparr>) nodelist = Inr w1"
    and w': "w' = w1\<lparr>autoescape := autoescape w\<rparr>"
    by blast
  from settings_autoescape [OF body_settings [OF b]] have "autoescape w1 = setting"
    by simp
  with b w' show "\<exists>w1. body (w\<lparr>autoescape := setting\<rparr>) nodelist = Inr w1 \<and> autoescape w1 = setting
            \<and> w' = w1\<lparr>autoescape := autoescape w\<rparr>"
    by blast
  from node_settings [OF ret] show "autoescape w' = autoescape w"
    by (rule settings_autoescape)
  from node_settings [OF ret] show "spaceless w' = spaceless w"
    by (rule settings_spaceless)
  from node_settings [OF ret]
  show "w' = w\<lparr>stream := stream w', error_stream := error_stream w', consumed := consumed w'\<rparr>"
    by (simp add: settings_eq_iff)
next
  assume ret: "node w (Obj src2 (SpacelessNode nodelist2)) = Inr w''"
  then have "\<exists>w1. body (warn (w\<lparr>spaceless := True\<rparr>)
                     ''entering spaceless mode with different semantics''
                     (Some (Obj src2 (SpacelessNode nodelist2))))
                (strip_nodelist nodelist2) = Inr w1
               \<and> w'' = w1\<lparr>spaceless := spaceless w\<rparr>"
    by (auto simp: node.simps bnd_Inr_iff Let_def)
  then obtain w1 where
    b: "body (warn (w\<lparr>spaceless := True\<rparr>)
                     ''entering spaceless mode with different semantics''
                     (Some (Obj src2 (SpacelessNode nodelist2))))
                (strip_nodelist nodelist2) = Inr w1"
    and w'': "w'' = w1\<lparr>spaceless := spaceless w\<rparr>"
    by blast
  from settings_spaceless [OF body_settings [OF b]] have "spaceless w1"
    by (simp add: warn_def)
  with b w'' show "\<exists>w1. body (warn (w\<lparr>spaceless := True\<rparr>)
                     ''entering spaceless mode with different semantics''
                     (Some (Obj src2 (SpacelessNode nodelist2))))
                (strip_nodelist nodelist2) = Inr w1
            \<and> spaceless w1 \<and> w'' = w1\<lparr>spaceless := spaceless w\<rparr>"
    by blast
  from node_settings [OF ret] show "autoescape w'' = autoescape w"
    by (rule settings_autoescape)
  from node_settings [OF ret] show "spaceless w'' = spaceless w"
    by (rule settings_spaceless)
  from node_settings [OF ret]
  show "w'' = w\<lparr>stream := stream w'', error_stream := error_stream w'',
                 consumed := consumed w''\<rparr>"
    by (simp add: settings_eq_iff)
qed

text \<open>
  With the default writer, a region of each kind followed by a variable: inside the
  autoescape region that is off the variable is closed without the escape filter, inside
  the spaceless region the variable is opened and closed with trim markers, and after
  either region the variable is written as before it.
\<close>

theorem scoped_region_then_sibling:
  "node Writer (Obj None (AutoEscapeControlNode False
       [Obj None (VariableNode
          (Obj None (FilterExpression (Obj None (Variable ''x'' None False)) [])))]))
     = Inr (Writer\<lparr>stream := ''{{ x }}''\<rparr>)
   \<and> autoescape (Writer\<lparr>stream := ''{{ x }}''\<rparr>) = autoescape Writer
   \<and> body Writer
       [Obj None (AutoEscapeControlNode False
          [Obj None (VariableNode
             (Obj None (FilterExpression (Obj None (Variable ''x'' None False)) [])))]),
        Obj None (VariableNode
           (Obj None (FilterExpression (Obj None (Variable ''y'' None False)) [])))]
     = Inr (Writer\<lparr>stream := ''{{ x }}{{ y|e }}''\<rparr>)
   \<and> node Writer (Obj None (SpacelessNode
       [Obj None (TextNode ''  ''),
        Obj None (VariableNode
          (Obj None (FilterExpression (Obj None (Variable ''x'' None False)) [])))]))
     = Inr (Writer\<lparr>stream := ''{{- x|e -}}'',
                    error_stream := ''entering spaceless mode with different semantics''
                                    @ [newline]\<rparr>)
   \<and> spaceless (Writer\<lparr>stream := ''{{- x|e -}}'',
                    error_stream := ''entering spaceless mode with different semantics''
                                    @ [newline]\<rparr>) = spaceless Writer
   \<and> body Writer
       [Obj None (SpacelessNode
          [Obj None (TextNode ''  ''),
           Obj None (VariableNode
             (Obj None (FilterExpression (Obj None (Variable ''x'' None False)) [])))]),
        Obj None (VariableNode
           (Obj None (FilterExpression (Obj None (Variable ''y'' None False)) [])))]
     = Inr (Writer\<lparr>stream := ''{{- x|e -}}{{ y|e }}'',
                    error_stream := ''entering spaceless mode with different semantics''
                                    @ [newline]\<rparr>)"
proof -
  have a: "node Writer (Obj None (AutoEscapeControlNode False
       [Obj None (VariableNode
          (Obj None (FilterExpression (Obj None (Variable ''x'' None False)) [])))]))
     = Inr (Writer\<lparr>stream := ''{{ x }}''\<rparr>)"
    by (simp add: node.simps filters.simps variable_handler_def variable_def writes_def
          translate_variable_name_def in_loop_def startswith_def Writer_def safe_data_def
          start_variable_def end_variable_def post_open_def pre_close_def)
  have s: "node Writer (Obj None (SpacelessNode
       [Obj None (TextNode ''  ''),
        Obj None (VariableNode
          (Obj None (FilterExpression (Obj None (Variable ''x'' None False)) [])))]))
     = Inr (Writer\<lparr>stream := ''{{- x|e -}}'',
                    error_stream := ''entering spaceless mode with different semantics''
                                    @ [newline]\<rparr>)"
    by (simp add: node.simps filters.simps text_node_def variable_handler_def variable_def
          writes_def translate_variable_name_def in_loop_def startswith_def Writer_def
          safe_data_def start_variable_def end_variable_def post_open_def pre_close_def
          strip_nodelist_def lstrip_def rstrip_def isspace_def warn_def warn_message_def Let_def)
  have y1: "node (Writer\<lparr>stream := ''{{ x }}''\<rparr>)
             (Obj None (VariableNode
                (Obj None (FilterExpression (Obj None (Variable ''y'' None False)) []))))
           = Inr (Writer\<lparr>stream := ''{{ x }}{{ y|e }}''\<rparr>)"
    by (simp add: node.simps filters.simps variable_handler_def variable_def writes_def
          translate_variable_name_def in_loop_def startswith_def Writer_def safe_data_def
          start_variable_def end_variable_def post_open_def pre_close_def)
  have y2: "node (Writer\<lparr>stream := ''{{- x|e -}}'',
                    error_stream := ''entering spaceless mode with different semantics''
                                    @ [newline]\<rparr>)
             (Obj None (VariableNode
                (Obj None (FilterExpression (Obj None (Variable ''y'' None False)) []))))
           = Inr (Writer\<lparr>stream := ''{{- x|e -}}{{ y|e }}'',
                    error_stream := ''entering spaceless mode with different semantics''
                                    @ [newline]\<rparr>)"
    by (simp add: node.simps filters.simps variable_handler_def variable_def writes_def
          translate_variable_name_def in_loop_def startswith_def Writer_def safe_data_def
          start_variable_def end_variable_def post_open_def pre_close_def)
  from scoped_region_restores_flags
    [of Writer None False
        "[Obj None (VariableNode
            (Obj None (FilterExpression (Obj None (Variable ''x'' None False)) [])))]"
        "Writer\<lparr>stream := ''{{ x }}''\<rparr>"
        None
        "[Obj None (TextNode ''  ''),
          Obj None (VariableNode
            (Obj None (FilterExpression (Obj None (Variable ''x'' None False)) [])))]"
        "Writer\<lparr>stream := ''{{- x|e -}}'',
                error_stream := ''entering spaceless mode with different semantics''
                                @ [newline]\<rparr>"]
    a s
  have "autoescape (Writer\<lparr>stream := ''{{ x }}''\<rparr>) = autoescape Writer"
    and "spaceless (Writer\<lparr>stream := ''{{- x|e -}}'',
                    error_stream := ''entering spaceless mode with different semantics''
                                    @ [newline]\<rparr>) = spaceless Writer"
    by blast+
  with a s y1 y2 show ?thesis
    by simp
qed

end
